theory Spec2Isabelle
  imports Complex_Main
begin

section \<open>Python values, errors and list helpers\<close>

text \<open>
  Python floats are modelled as exact reals and Python ints as \<open>int\<close> (or \<open>nat\<close> where the
  source only counts upwards from zero).  Every exception the modelled code can raise is a
  constructor of \<open>error\<close>; a function that can raise returns \<open>error + 'a\<close>.
\<close>

datatype error = ZeroDivisionError | ValueError | IndexError

text \<open>A value stored in a telemetry dict: a number, or one of \<open>True\<close>/\<open>False\<close>.\<close>

datatype pyval = Num real | Bool bool

fun as_num :: "pyval \<Rightarrow> real" where
  "as_num (Num x) = x"
| "as_num (Bool b) = (if b then 1 else 0)"

fun truthy :: "pyval \<Rightarrow> bool" where
  "truthy (Num x) = (x \<noteq> 0)"
| "truthy (Bool b) = b"

text \<open>\<open>d.get(k, default)\<close> on a dict kept as an association list.\<close>

definition dict_get :: "('k \<times> 'v) list \<Rightarrow> 'k \<Rightarrow> 'v \<Rightarrow> 'v" where
  "dict_get d k dflt = (case map_of d k of None \<Rightarrow> dflt | Some v \<Rightarrow> v)"

text \<open>\<open>d.get(k, default)\<close> on a dict with a fixed set of optional keys.\<close>

definition get_or :: "'a option \<Rightarrow> 'a \<Rightarrow> 'a" where
  "get_or v dflt = (case v of None \<Rightarrow> dflt | Some x \<Rightarrow> x)"

text \<open>The slice \<open>xs[:k]\<close>: a negative bound counts from the end.\<close>

definition slice_to :: "int \<Rightarrow> 'a list \<Rightarrow> 'a list" where
  "slice_to k xs = (if 0 \<le> k then take (nat k) xs else take (length xs - nat (- k)) xs)"

text \<open>The slice \<open>xs[-5:]\<close>.\<close>

definition last5 :: "'a list \<Rightarrow> 'a list" where
  "last5 xs = drop (length xs - 5) xs"

text \<open>\<open>np.mean\<close> of a non-empty list.\<close>

definition mean :: "real list \<Rightarrow> real" where
  "mean xs = sum_list xs / real (length xs)"

text \<open>
  \<open>max(xs, key=f)\<close> on a non-empty list whose head is \<open>x\<close>: the first element whose key
  is maximal.
\<close>

fun max_by :: "('a \<Rightarrow> real) \<Rightarrow> 'a \<Rightarrow> 'a list \<Rightarrow> 'a" where
  "max_by f x [] = x"
| "max_by f x (y # ys) = (if f x < f y then max_by f y ys else max_by f x ys)"


section \<open>Diversity and entropy metrics (\<open>utilities/metrics.py\<close>)\<close>

text \<open>
  A descriptive state handed to \<open>calculate_genetic_diversity_score\<close> is a dict read with
  \<open>.get\<close> only, at the keys \<open>name\<close>, \<open>memory\<close> and \<open>cpu\<close>; an absent key is \<open>None\<close>.
\<close>

record snapshot =
  name :: "string option"
  memory :: "real option"
  cpu :: "real option"

definition ljust :: "string \<Rightarrow> nat \<Rightarrow> string" where
  "ljust s n = s @ replicate (n - length s) (CHR '' '')"

definition hamming_distance :: "string \<Rightarrow> string \<Rightarrow> real" where
  "hamming_distance str1 str2 =
     (let max_len = max (length str1) (length str2) in
      if max_len = 0 then 0
      else
        let s1 = ljust str1 max_len;
            s2 = ljust str2 max_len;
            distance = length (filter (\<lambda>(c1, c2). c1 \<noteq> c2) (zip s1 s2))
        in real distance / real max_len)"

text \<open>The body of the loop of \<open>calculate_genetic_diversity_score\<close> for one prior state.\<close>

definition memory_denominator :: "snapshot \<Rightarrow> snapshot \<Rightarrow> real" where
  "memory_denominator cur prev = max (get_or (memory cur) 1) (get_or (memory prev) 1)"

definition state_diversity :: "snapshot \<Rightarrow> snapshot \<Rightarrow> error + real" where
  "state_diversity cur prev =
     (let name_diff = hamming_distance (get_or (name cur) []) (get_or (name prev) []) in
      if memory_denominator cur prev = 0 then Inl ZeroDivisionError
      else
        let memory_diff = \<bar>get_or (memory cur) 0 - get_or (memory prev) 0\<bar>
                            / memory_denominator cur prev;
            cpu_diff = \<bar>get_or (cpu cur) 0 - get_or (cpu prev) 0\<bar> / 100
        in Inr (name_diff * 0.4 + memory_diff * 0.3 + cpu_diff * 0.3))"

fun diversity_scores :: "snapshot \<Rightarrow> snapshot list \<Rightarrow> error + real list" where
  "diversity_scores cur [] = Inr []"
| "diversity_scores cur (prev # rest) =
     (case state_diversity cur prev of
        Inl e \<Rightarrow> Inl e
      | Inr d \<Rightarrow> (case diversity_scores cur rest of Inl e \<Rightarrow> Inl e | Inr ds \<Rightarrow> Inr (d # ds)))"

definition calculate_genetic_diversity_score :: "snapshot \<Rightarrow> snapshot list \<Rightarrow> error + real" where
  "calculate_genetic_diversity_score current_state previous_states =
     (if previous_states = [] then Inr 0
      else case diversity_scores current_state (last5 previous_states) of
             Inl e \<Rightarrow> Inl e
           | Inr ds \<Rightarrow> Inr (mean ds))"

text \<open>
  \<open>calculate_entropy\<close>: Shannon entropy of the character frequencies of a string.  The
  dict of frequencies has one entry per distinct character.
\<close>

definition calculate_entropy :: "string \<Rightarrow> real" where
  "calculate_entropy data =
     (if data = [] then 0
      else - sum_list (map (\<lambda>c. let p = real (count_list data c) / real (length data)
                                 in if 0 < p then p * log 2 p else 0)
                           (remdups data)))"


section \<open>Chromosomes (\<open>deception_layer/genetic_deception.py\<close>)\<close>

text \<open>
  A chromosome is a dict with a fixed set of keys, some of them nested dicts with fixed
  keys of their own.  The key \<open>id\<close> is \<open>chr_id\<close> here, and \<open>count\<close> and \<open>mutation_rate\<close> of
  \<open>mirage_config\<close> are \<open>mirage_count\<close> and \<open>mirage_mutation_rate\<close>.  The gene
  \<open>service_diversity\<close> starts as an int and becomes a float once crossover has blended it,
  so it is a real.
\<close>

record mirage_cfg =
  mirage_count :: int
  mirage_mutation_rate :: real
  process_types :: "string list"
  polymorphism_intensity :: real

record credential_cfg =
  complexity :: real
  realism_level :: real
  diversity :: real

record filesystem_cfg =
  decoy_density :: real
  file_types :: "string list"
  fractal_depth :: int

record network_cfg =
  service_diversity :: real
  response_delay :: real
  traffic_mimicry :: real

record math_cfg =
  chaos_parameter :: real
  entropy_target :: real
  fractal_complexity :: real

record chromosome =
  chr_id :: string
  honeypot_count :: int
  honeypot_types :: "string list"
  mirage_config :: mirage_cfg
  credential_config :: credential_cfg
  filesystem_config :: filesystem_cfg
  network_config :: network_cfg
  math_config :: math_cfg
  fitness :: real
  generation_created :: nat
  parent_ids :: "string list"

text \<open>
  Chromosomes are mutable objects shared between the live population and the history, so
  they live in a store: a reference is an index into the list of all objects allocated so
  far, and allocation appends.  \<open>copy.deepcopy\<close> allocates a new object with the same
  contents.
\<close>

type_synonym ref = nat
type_synonym store = "chromosome list"

text \<open>Decimal printing of a non-negative int, as an f-string does it.\<close>

definition digit_char :: "nat \<Rightarrow> char" where
  "digit_char n = ''0123456789'' ! n"

fun str_nat :: "nat \<Rightarrow> string" where
  "str_nat n = (if n < 10 then [digit_char n] else str_nat (n div 10) @ [digit_char (n mod 10)])"

declare str_nat.simps [simp del]


subsection \<open>The engine and its construction\<close>

record weights =
  engagement_time :: real
  data_quality :: real
  confusion_score :: real
  genetic_diversity :: real

record ga_config =
  cfg_population_size :: int
  cfg_max_generations :: int
  cfg_mutation_rate :: real
  cfg_crossover_rate :: real
  cfg_elite_size :: int
  cfg_fitness_weights :: weights

text \<open>\<open>GA_CONFIG\<close> of \<open>utilities/config.py\<close>.\<close>

definition GA_CONFIG :: ga_config where
  "GA_CONFIG =
     \<lparr>cfg_population_size = 20, cfg_max_generations = 100, cfg_mutation_rate = 0.2,
      cfg_crossover_rate = 0.8, cfg_elite_size = 4,
      cfg_fitness_weights =
        \<lparr>engagement_time = 0.3, data_quality = 0.25, confusion_score = 0.25,
         genetic_diversity = 0.2\<rparr>\<rparr>"

record evolution_data =
  ev_generation :: nat
  best_fitness :: real
  avg_fitness :: real
  worst_fitness :: real
  best_chromosome :: ref
  improvement :: real

record engine =
  population_size :: int
  mutation_rate :: real
  crossover_rate :: real
  elite_size :: int
  fitness_weights :: weights
  population :: "ref list"
  generation :: nat
  fitness_history :: "evolution_data list"
  best_chromosome_history :: "ref list"

text \<open>
  \<open>_create_random_chromosome\<close>: every gene is a value returned by the \<open>random\<close> module.
  The values drawn are given as the gene fields of \<open>genes\<close>; the function sets the metadata.
\<close>

definition create_random_chromosome :: "nat \<Rightarrow> chromosome \<Rightarrow> chromosome" where
  "create_random_chromosome gen genes =
     genes\<lparr>fitness := 0, generation_created := gen, parent_ids := []\<rparr>"

text \<open>
  \<open>_initialize_population\<close>: \<open>range(population_size)\<close> is empty for a size below 1.  The
  \<open>i\<close>-th chromosome is the \<open>i\<close>-th object of the store.
\<close>

definition initialize_population :: "int \<Rightarrow> (nat \<Rightarrow> chromosome) \<Rightarrow> store" where
  "initialize_population n rnd =
     map (\<lambda>i. (create_random_chromosome 0 (rnd i))\<lparr>chr_id := ''gen0_chr'' @ str_nat i\<rparr>)
       [0..<nat n]"

text \<open>
  \<open>GeneticDeceptionEvolver.__init__\<close>, reading the configuration \<open>cfg\<close> where the source
  reads \<open>GA_CONFIG\<close>.  It has no check and no \<open>raise\<close>.
\<close>

definition init :: "ga_config \<Rightarrow> (nat \<Rightarrow> chromosome) \<Rightarrow> store \<times> engine" where
  "init cfg rnd =
     (let st = initialize_population (cfg_population_size cfg) rnd in
      (st,
       \<lparr>population_size = cfg_population_size cfg,
        mutation_rate = cfg_mutation_rate cfg,
        crossover_rate = cfg_crossover_rate cfg,
        elite_size = cfg_elite_size cfg,
        fitness_weights = cfg_fitness_weights cfg,
        population = [0..<length st],
        generation = 0,
        fitness_history = [],
        best_chromosome_history = []\<rparr>))"


subsection \<open>Fitness\<close>

text \<open>
  \<open>_calculate_chromosome_diversity\<close> takes the entropy of \<open>str(config_values)\<close>, the
  printed list of six genes.  How Python prints a float is not modelled: the printing
  function \<open>str_values\<close> is a parameter.
\<close>

type_synonym config_values = "int \<times> int \<times> real \<times> real \<times> real \<times> real"

definition calculate_chromosome_diversity :: "(config_values \<Rightarrow> string) \<Rightarrow> chromosome \<Rightarrow> real" where
  "calculate_chromosome_diversity str_values c =
     (let config_values =
            (honeypot_count c,
             mirage_count (mirage_config c),
             mirage_mutation_rate (mirage_config c),
             complexity (credential_config c),
             decoy_density (filesystem_config c),
             service_diversity (network_config c));
          entropy = calculate_entropy (str_values config_values)
      in min (entropy / 10) 1)"

type_synonym stats = "(string \<times> pyval) list"

definition fitness_function ::
    "(config_values \<Rightarrow> string) \<Rightarrow> engine \<Rightarrow> chromosome \<Rightarrow> stats \<Rightarrow> real" where
  "fitness_function str_values e c attack_results =
     (if attack_results = [] then 0
      else
        let engagement = as_num (dict_get attack_results ''total_interaction_time'' (Num 0));
            engagement_score = min (engagement / 120) 1;
            data_points = as_num (dict_get attack_results ''data_points_collected'' (Num 0));
            data_score = min (data_points / 100) 1;
            failed_exploits = as_num (dict_get attack_results ''failed_exploits'' (Num 0));
            repeated_attempts = as_num (dict_get attack_results ''repeated_attempts'' (Num 0));
            abandoned = dict_get attack_results ''abandoned'' (Bool False);
            total = max (as_num (dict_get attack_results ''total_attempts'' (Num 1))) 1;
            confusion = failed_exploits / total * 0.5 + repeated_attempts / total * 0.3
                          + (if truthy abandoned then 0.2 else 0);
            diversity_score = calculate_chromosome_diversity str_values c;
            w = fitness_weights e
        in (engagement_score * engagement_time w + data_score * data_quality w
              + confusion * confusion_score w + diversity_score * genetic_diversity w) * 1000)"


subsection \<open>Random draws\<close>

text \<open>
  Every call of the \<open>random\<close> module is a value supplied from outside, so that a run is a
  function of its draws.  \<open>random.random()\<close> is a real that the code only compares with a
  rate; \<open>random.uniform\<close> is a real and \<open>random.randint(-2, 2)\<close> an int, added to a gene
  before clamping.  A natural number \<open>d\<close> stands for \<open>random.randint(1000, 9999)\<close> as
  \<open>1000 + d mod 9000\<close> and for \<open>random.choice(xs)\<close> as \<open>xs ! (d mod length xs)\<close>, so that
  every draw is in range and every value in range is drawn by some \<open>d\<close>.
\<close>

definition randint_1000_9999 :: "nat \<Rightarrow> nat" where
  "randint_1000_9999 d = 1000 + d mod 9000"

definition random_choice :: "'a list \<Rightarrow> nat \<Rightarrow> 'a" where
  "random_choice xs d = xs ! (d mod length xs)"

text \<open>
  \<open>random.sample(xs, 3)\<close> draws three positions without replacement: each draw takes one
  element out of those that are left.  It raises \<open>ValueError\<close> when \<open>xs\<close> has fewer than
  three elements.
\<close>

definition take_at :: "nat \<Rightarrow> 'a list \<Rightarrow> 'a \<times> 'a list" where
  "take_at d xs = (let p = d mod length xs in (xs ! p, take p xs @ drop (Suc p) xs))"

definition random_sample3 :: "'a list \<Rightarrow> nat \<times> nat \<times> nat \<Rightarrow> error + 'a list" where
  "random_sample3 xs d =
     (case d of (i, j, k) \<Rightarrow>
        if length xs < 3 then Inl ValueError
        else
          let (a, rest1) = take_at i xs;
              (b, rest2) = take_at j rest1;
              (c, rest3) = take_at k rest2
          in Inr [a, b, c])"

record crossover_draws =
  swap_honeypot :: real
  swap_mirage :: real
  swap_credential :: real
  swap_filesystem :: real
  alpha_service_diversity :: real
  alpha_response_delay :: real
  alpha_traffic_mimicry :: real
  alpha_chaos_parameter :: real
  alpha_entropy_target :: real
  alpha_fractal_complexity :: real
  id_draw1 :: nat
  id_draw2 :: nat

record breed_draws =
  choice1 :: nat
  choice2 :: nat
  crossover_gate :: real
  crossover_rnd :: crossover_draws

record mutate_draws =
  gate_honeypot_count :: real
  delta_honeypot_count :: int
  gate_mirage_count :: real
  delta_mirage_count :: int
  gate_mirage_mutation_rate :: real
  delta_mirage_mutation_rate :: real
  gate_complexity :: real
  delta_complexity :: real
  gate_realism_level :: real
  delta_realism_level :: real
  gate_diversity :: real
  delta_diversity :: real
  gate_decoy_density :: real
  delta_decoy_density :: real
  gate_service_diversity :: real
  delta_service_diversity :: int
  gate_chaos_parameter :: real
  delta_chaos_parameter :: real

record evolve_draws =
  tournament_rnd :: "nat \<Rightarrow> nat \<times> nat \<times> nat"
  breed_rnd :: "nat \<Rightarrow> breed_draws"
  mutation_rnd :: "nat \<Rightarrow> real \<times> mutate_draws"


subsection \<open>Tournament selection\<close>

text \<open>
  \<open>_tournament_selection\<close>: round \<open>n\<close> of the \<open>for\<close> loop samples with the draws
  \<open>draws n\<close> and appends the chromosome of the first pair of maximal fitness.
\<close>

fun tournament_rounds ::
    "(ref \<times> real) list \<Rightarrow> (nat \<Rightarrow> nat \<times> nat \<times> nat) \<Rightarrow> nat \<Rightarrow> error + ref list" where
  "tournament_rounds sorted_population draws 0 = Inr []"
| "tournament_rounds sorted_population draws (Suc n) =
     (case tournament_rounds sorted_population draws n of
        Inl err \<Rightarrow> Inl err
      | Inr selected \<Rightarrow>
          (case random_sample3 sorted_population (draws n) of
             Inl err \<Rightarrow> Inl err
           | Inr tournament \<Rightarrow>
               Inr (selected @ [fst (max_by snd (hd tournament) (tl tournament))])))"

definition tournament_selection ::
    "(ref \<times> real) list \<Rightarrow> int \<Rightarrow> (nat \<Rightarrow> nat \<times> nat \<times> nat) \<Rightarrow> error + ref list" where
  "tournament_selection sorted_population tournament_size draws =
     tournament_rounds sorted_population draws (nat tournament_size)"


subsection \<open>Crossover\<close>

definition blend :: "real \<Rightarrow> real \<Rightarrow> real \<Rightarrow> real" where
  "blend alpha x y = alpha * x + (1 - alpha) * y"

text \<open>
  \<open>_crossover\<close> on the contents of the two parents; the two results are new objects.  The
  first child starts as a copy of \<open>parent1\<close> and takes from \<open>parent2\<close> what is swapped, the
  second child the other way round.  Both blends read the parents, with the same \<open>alpha\<close>.
\<close>

definition crossover_child ::
    "engine \<Rightarrow> chromosome \<Rightarrow> chromosome \<Rightarrow> chromosome \<Rightarrow> chromosome \<Rightarrow> crossover_draws
       \<Rightarrow> (real \<Rightarrow> real) \<Rightarrow> nat \<Rightarrow> chromosome" where
  "crossover_child e parent1 parent2 own other d wt id_draw =
     own
       \<lparr>honeypot_count :=
          (if swap_honeypot d < 0.5 then honeypot_count other else honeypot_count own),
        mirage_config :=
          (mirage_config own)
            \<lparr>mirage_count :=
               (if swap_mirage d < 0.5 then mirage_count (mirage_config other)
                else mirage_count (mirage_config own))\<rparr>,
        credential_config :=
          (if swap_credential d < 0.5 then credential_config other else credential_config own),
        filesystem_config :=
          (if swap_filesystem d < 0.5 then filesystem_config other else filesystem_config own),
        network_config :=
          \<lparr>service_diversity =
             blend (wt (alpha_service_diversity d))
               (service_diversity (network_config parent1))
               (service_diversity (network_config parent2)),
           response_delay =
             blend (wt (alpha_response_delay d))
               (response_delay (network_config parent1))
               (response_delay (network_config parent2)),
           traffic_mimicry =
             blend (wt (alpha_traffic_mimicry d))
               (traffic_mimicry (network_config parent1))
               (traffic_mimicry (network_config parent2))\<rparr>,
        math_config :=
          \<lparr>chaos_parameter =
             blend (wt (alpha_chaos_parameter d))
               (chaos_parameter (math_config parent1))
               (chaos_parameter (math_config parent2)),
           entropy_target =
             blend (wt (alpha_entropy_target d))
               (entropy_target (math_config parent1))
               (entropy_target (math_config parent2)),
           fractal_complexity =
             blend (wt (alpha_fractal_complexity d))
               (fractal_complexity (math_config parent1))
               (fractal_complexity (math_config parent2))\<rparr>,
        chr_id := ''gen'' @ str_nat (generation e) @ ''_chr'' @ str_nat (randint_1000_9999 id_draw),
        parent_ids := [chr_id parent1, chr_id parent2],
        generation_created := generation e\<rparr>"

definition crossover ::
    "engine \<Rightarrow> chromosome \<Rightarrow> chromosome \<Rightarrow> crossover_draws \<Rightarrow> chromosome \<times> chromosome" where
  "crossover e parent1 parent2 d =
     (crossover_child e parent1 parent2 parent1 parent2 d (\<lambda>alpha. alpha) (id_draw1 d),
      crossover_child e parent1 parent2 parent2 parent1 d (\<lambda>alpha. 1 - alpha) (id_draw2 d))"


subsection \<open>Mutation\<close>

text \<open>
  \<open>_mutate\<close> works on a deep copy and returns it.  Each gene is changed behind its own
  gate, in the order of the source; \<open>max(lo, min(hi, x))\<close> clamps.
\<close>

definition clamp :: "'a::linorder \<Rightarrow> 'a \<Rightarrow> 'a \<Rightarrow> 'a" where
  "clamp lo hi x = max lo (min hi x)"

definition mutate_honeypot_count :: "mutate_draws \<Rightarrow> chromosome \<Rightarrow> chromosome" where
  "mutate_honeypot_count d m =
     (if gate_honeypot_count d < 0.3
      then m\<lparr>honeypot_count := clamp 3 10 (honeypot_count m + delta_honeypot_count d)\<rparr>
      else m)"

definition mutate_mirage_count :: "mutate_draws \<Rightarrow> chromosome \<Rightarrow> chromosome" where
  "mutate_mirage_count d m =
     (if gate_mirage_count d < 0.3
      then m\<lparr>mirage_config := (mirage_config m)
               \<lparr>mirage_count := clamp 5 15 (mirage_count (mirage_config m) + delta_mirage_count d)\<rparr>\<rparr>
      else m)"

definition mutate_mirage_mutation_rate :: "mutate_draws \<Rightarrow> chromosome \<Rightarrow> chromosome" where
  "mutate_mirage_mutation_rate d m =
     (if gate_mirage_mutation_rate d < 0.3
      then m\<lparr>mirage_config := (mirage_config m)
               \<lparr>mirage_mutation_rate :=
                  clamp 0.1 0.5
                    (mirage_mutation_rate (mirage_config m) + delta_mirage_mutation_rate d)\<rparr>\<rparr>
      else m)"

definition mutate_complexity :: "mutate_draws \<Rightarrow> chromosome \<Rightarrow> chromosome" where
  "mutate_complexity d m =
     (if gate_complexity d < 0.3
      then m\<lparr>credential_config := (credential_config m)
               \<lparr>complexity := clamp 0 1 (complexity (credential_config m) + delta_complexity d)\<rparr>\<rparr>
      else m)"

definition mutate_realism_level :: "mutate_draws \<Rightarrow> chromosome \<Rightarrow> chromosome" where
  "mutate_realism_level d m =
     (if gate_realism_level d < 0.3
      then m\<lparr>credential_config := (credential_config m)
               \<lparr>realism_level :=
                  clamp 0 1 (realism_level (credential_config m) + delta_realism_level d)\<rparr>\<rparr>
      else m)"

definition mutate_diversity :: "mutate_draws \<Rightarrow> chromosome \<Rightarrow> chromosome" where
  "mutate_diversity d m =
     (if gate_diversity d < 0.3
      then m\<lparr>credential_config := (credential_config m)
               \<lparr>diversity := clamp 0 1 (diversity (credential_config m) + delta_diversity d)\<rparr>\<rparr>
      else m)"

definition mutate_decoy_density :: "mutate_draws \<Rightarrow> chromosome \<Rightarrow> chromosome" where
  "mutate_decoy_density d m =
     (if gate_decoy_density d < 0.3
      then m\<lparr>filesystem_config := (filesystem_config m)
               \<lparr>decoy_density :=
                  clamp 0.1 0.8 (decoy_density (filesystem_config m) + delta_decoy_density d)\<rparr>\<rparr>
      else m)"

definition mutate_service_diversity :: "mutate_draws \<Rightarrow> chromosome \<Rightarrow> chromosome" where
  "mutate_service_diversity d m =
     (if gate_service_diversity d < 0.3
      then m\<lparr>network_config := (network_config m)
               \<lparr>service_diversity :=
                  clamp 3 10
                    (service_diversity (network_config m)
                       + of_int (delta_service_diversity d))\<rparr>\<rparr>
      else m)"

definition mutate_chaos_parameter :: "mutate_draws \<Rightarrow> chromosome \<Rightarrow> chromosome" where
  "mutate_chaos_parameter d m =
     (if gate_chaos_parameter d < 0.3
      then m\<lparr>math_config := (math_config m)
               \<lparr>chaos_parameter :=
                  clamp 3.6 4.0 (chaos_parameter (math_config m) + delta_chaos_parameter d)\<rparr>\<rparr>
      else m)"

definition mutate :: "chromosome \<Rightarrow> mutate_draws \<Rightarrow> chromosome" where
  "mutate c d =
     mutate_chaos_parameter d
       (mutate_service_diversity d
         (mutate_decoy_density d
           (mutate_diversity d
             (mutate_realism_level d
               (mutate_complexity d
                 (mutate_mirage_mutation_rate d
                   (mutate_mirage_count d
                     (mutate_honeypot_count d c))))))))"


subsection \<open>One generation\<close>

text \<open>
  Step 1 of \<open>evolve_generation\<close>: the fitness of every chromosome of the population is
  computed from its entry in the batch (\<open>{}\<close> when its id is absent) and written into the
  object itself.
\<close>

fun evaluate ::
    "(config_values \<Rightarrow> string) \<Rightarrow> engine \<Rightarrow> (string \<times> stats) list \<Rightarrow> store \<Rightarrow> ref list
       \<Rightarrow> (ref \<times> real) list \<Rightarrow> store \<times> (ref \<times> real) list" where
  "evaluate str_values e batch st [] fitness_scores = (st, fitness_scores)"
| "evaluate str_values e batch st (r # rs) fitness_scores =
     (let c = st ! r;
          results = dict_get batch (chr_id c) [];
          f = fitness_function str_values e c results
      in evaluate str_values e batch (st[r := c\<lparr>fitness := f\<rparr>]) rs (fitness_scores @ [(r, f)]))"

text \<open>
  Step 4, the \<open>while\<close> loop that fills \<open>offspring\<close>: \<open>n\<close> is \<open>len(new_population)\<close>, \<open>i\<close>
  counts the rounds.  Both branches allocate two new objects.
\<close>

function breed ::
    "engine \<Rightarrow> ref list \<Rightarrow> nat \<Rightarrow> (nat \<Rightarrow> breed_draws) \<Rightarrow> nat \<Rightarrow> store \<Rightarrow> ref list
       \<Rightarrow> store \<times> ref list" where
  "breed e breeding_pool n draws i st offspring =
     (if int n + int (length offspring) < population_size e then
        if length breeding_pool < 2 then (st, offspring)
        else
          let d = draws i;
              parent1 = random_choice breeding_pool (choice1 d);
              parent2 = random_choice breeding_pool (choice2 d);
              children =
                (if crossover_gate d < crossover_rate e
                 then crossover e (st ! parent1) (st ! parent2) (crossover_rnd d)
                 else (st ! parent1, st ! parent2))
          in breed e breeding_pool n draws (Suc i) (st @ [fst children, snd children])
               (offspring @ [length st, Suc (length st)])
      else (st, offspring))"
  by pat_completeness auto
termination
  by (relation "measure (\<lambda>(e, pool, n, draws, i, st, offspring).
         nat (population_size e - int n - int (length offspring)))") auto

declare breed.simps [simp del]

text \<open>
  Step 5, the \<open>for\<close> loop over \<open>offspring\<close>: \<open>child = self._mutate(child)\<close> binds the loop
  variable to the mutated copy.  The copy is a new object; the list \<open>offspring\<close> and the
  objects it refers to are not written.
\<close>

fun mutation_pass ::
    "engine \<Rightarrow> (nat \<Rightarrow> real \<times> mutate_draws) \<Rightarrow> ref list \<Rightarrow> nat \<Rightarrow> store \<Rightarrow> store" where
  "mutation_pass e draws [] i st = st"
| "mutation_pass e draws (child # rest) i st =
     (if fst (draws i) < mutation_rate e
      then mutation_pass e draws rest (Suc i) (st @ [mutate (st ! child) (snd (draws i))])
      else mutation_pass e draws rest (Suc i) st)"

text \<open>
  \<open>evolve_generation\<close>.  \<open>sorted(..., reverse=True)\<close> is stable, as is \<open>sort_key\<close> on the
  negated fitness.  \<open>sorted_population[0]\<close> raises \<open>IndexError\<close> on an empty population and
  the sampling of the tournament may raise \<open>ValueError\<close>; the store an exception leaves
  behind is not part of the result.  The call to the logger writes a file and returns.
\<close>

definition evolve_generation ::
    "(config_values \<Rightarrow> string) \<Rightarrow> store \<Rightarrow> engine \<Rightarrow> (string \<times> stats) list \<Rightarrow> evolve_draws
       \<Rightarrow> error + (store \<times> engine \<times> ref)" where
  "evolve_generation str_values st e attack_results_batch rnd =
     (let evaluated = evaluate str_values e attack_results_batch st (population e) [];
          st1 = fst evaluated;
          fitness_scores = snd evaluated;
          sorted_population = sort_key (\<lambda>x. - snd x) fitness_scores
      in case sorted_population of
           [] \<Rightarrow> Inl IndexError
         | best # _ \<Rightarrow>
             let elite = map fst (slice_to (elite_size e) sorted_population) in
             case tournament_selection sorted_population (population_size e div 2)
                    (tournament_rnd rnd) of
               Inl err \<Rightarrow> Inl err
             | Inr breeding_pool \<Rightarrow>
                 let bred = breed e breeding_pool (length elite) (breed_rnd rnd) 0 st1 [];
                     st2 = fst bred;
                     offspring = snd bred;
                     st3 = mutation_pass e (mutation_rnd rnd) offspring 0 st2;
                     new_population =
                       elite @ slice_to (population_size e - int (length elite)) offspring;
                     evolution_data =
                       \<lparr>ev_generation = Suc (generation e),
                        best_fitness = snd best,
                        avg_fitness = mean (map snd fitness_scores),
                        worst_fitness = snd (last sorted_population),
                        best_chromosome = fst best,
                        improvement =
                          (if fitness_history e = [] then 0
                           else snd best - best_fitness (last (fitness_history e)))\<rparr>
                 in Inr (st3,
                         e\<lparr>population := new_population,
                           generation := Suc (generation e),
                           fitness_history := fitness_history e @ [evolution_data],
                           best_chromosome_history := best_chromosome_history e @ [fst best]\<rparr>,
                         fst best))"


subsection \<open>Queries\<close>

definition get_best_chromosome :: "store \<Rightarrow> engine \<Rightarrow> ref option" where
  "get_best_chromosome st e =
     (case population e of
        [] \<Rightarrow> None
      | r # rs \<Rightarrow> Some (max_by (\<lambda>x. fitness (st ! x)) r rs))"

record honeypots_export =
  honeypots_count :: int
  honeypots_types :: "string list"

record configuration_export =
  honeypots :: honeypots_export
  mirages :: mirage_cfg
  credentials :: credential_cfg
  filesystem :: filesystem_cfg
  network :: network_cfg
  mathematics :: math_cfg

record strategy =
  strategy_id :: string
  fitness_score :: real
  strategy_generation :: nat
  configuration :: configuration_export

text \<open>
  \<open>export_best_strategy\<close>: \<open>if not best\<close> holds for \<open>None\<close> only, a chromosome being a dict
  with keys.
\<close>

definition export_best_strategy :: "store \<Rightarrow> engine \<Rightarrow> strategy option" where
  "export_best_strategy st e =
     (case get_best_chromosome st e of
        None \<Rightarrow> None
      | Some r \<Rightarrow>
          let best = st ! r in
          Some \<lparr>strategy_id = chr_id best,
                fitness_score = fitness best,
                strategy_generation = generation_created best,
                configuration =
                  \<lparr>honeypots =
                     \<lparr>honeypots_count = honeypot_count best,
                      honeypots_types = honeypot_types best\<rparr>,
                   mirages = mirage_config best,
                   credentials = credential_config best,
                   filesystem = filesystem_config best,
                   network = network_config best,
                   mathematics = math_config best\<rparr>\<rparr>)"


section \<open>Input domains and sample inputs\<close>

text \<open>
  A snapshot in the domain of the diversity score: memory is not negative and the cpu load
  is a percentage.
\<close>

definition snapshot_ok :: "snapshot \<Rightarrow> bool" where
  "snapshot_ok s =
     (0 \<le> get_or (memory s) 0 \<and> 0 \<le> get_or (cpu s) 0 \<and> get_or (cpu s) 0 \<le> 100)"

text \<open>The summand of the diversity score for one prior state.\<close>

definition diversity_term :: "snapshot \<Rightarrow> snapshot \<Rightarrow> real" where
  "diversity_term cur prev =
     0.4 * hamming_distance (get_or (name cur) []) (get_or (name prev) [])
     + 0.3 * (\<bar>get_or (memory cur) 0 - get_or (memory prev) 0\<bar>
                / max (get_or (memory cur) 1) (get_or (memory prev) 1))
     + 0.3 * (\<bar>get_or (cpu cur) 0 - get_or (cpu prev) 0\<bar> / 100)"

definition snap_zero :: snapshot where
  "snap_zero = \<lparr>name = Some ''db'', memory = Some 0, cpu = Some 0\<rparr>"

definition snap_idle :: snapshot where
  "snap_idle = \<lparr>name = Some ''db'', memory = Some 100, cpu = Some 0\<rparr>"

definition snap_busy :: snapshot where
  "snap_busy = \<lparr>name = Some ''db'', memory = Some 100, cpu = Some 500\<rparr>"

definition snap_mysqld :: snapshot where
  "snap_mysqld = \<lparr>name = Some ''mysqld'', memory = Some 200, cpu = Some 10\<rparr>"

definition snap_nginx :: snapshot where
  "snap_nginx = \<lparr>name = Some ''nginx'', memory = Some 100, cpu = Some 60\<rparr>"

text \<open>The configurations that the specification calls valid.\<close>

definition config_valid :: "ga_config \<Rightarrow> bool" where
  "config_valid cfg =
     (2 \<le> cfg_population_size cfg \<and> cfg_elite_size cfg \<le> cfg_population_size cfg
      \<and> 0 \<le> cfg_mutation_rate cfg \<and> cfg_mutation_rate cfg \<le> 1
      \<and> 0 \<le> cfg_crossover_rate cfg \<and> cfg_crossover_rate cfg \<le> 1)"

definition tiny_config :: ga_config where
  "tiny_config = GA_CONFIG\<lparr>cfg_population_size := 1, cfg_elite_size := 4, cfg_mutation_rate := 1.5\<rparr>"

text \<open>A chromosome whose genes lie in the ranges they are first sampled from.\<close>

definition genes0 :: chromosome where
  "genes0 =
     \<lparr>chr_id = [], honeypot_count = 5, honeypot_types = [''ssh'', ''http'', ''mysql''],
      mirage_config =
        \<lparr>mirage_count = 8, mirage_mutation_rate = 0.3,
         process_types = [''database'', ''web_server'', ''ssh_daemon'', ''cache_server''],
         polymorphism_intensity = 0.7\<rparr>,
      credential_config = \<lparr>complexity = 0.3, realism_level = 0.8, diversity = 0.6\<rparr>,
      filesystem_config =
        \<lparr>decoy_density = 0.4, file_types = [''config'', ''log'', ''key''], fractal_depth = 3\<rparr>,
      network_config = \<lparr>service_diversity = 6, response_delay = 0.5, traffic_mimicry = 0.9\<rparr>,
      math_config = \<lparr>chaos_parameter = 3.9, entropy_target = 0.7, fractal_complexity = 0.5\<rparr>,
      fitness = 0, generation_created = 0, parent_ids = []\<rparr>"

definition engine_with :: "ref list \<Rightarrow> engine" where
  "engine_with refs =
     \<lparr>population_size = 4, mutation_rate = 0.2, crossover_rate = 0.8, elite_size = 1,
      fitness_weights = cfg_fitness_weights GA_CONFIG,
      population = refs, generation = 0, fitness_history = [], best_chromosome_history = []\<rparr>"

definition store2 :: store where
  "store2 = [genes0\<lparr>chr_id := ''gen0_chr0'', fitness := 10\<rparr>,
             genes0\<lparr>chr_id := ''gen0_chr1'', fitness := 40\<rparr>]"

text \<open>
  Telemetry in the documented domain: counts are not negative and there is at least one
  attempt.  A second predicate says that neither count exceeds the number of attempts.
\<close>

definition stats_in_domain :: "stats \<Rightarrow> bool" where
  "stats_in_domain s =
     (0 \<le> as_num (dict_get s ''total_interaction_time'' (Num 0))
      \<and> 0 \<le> as_num (dict_get s ''data_points_collected'' (Num 0))
      \<and> 0 \<le> as_num (dict_get s ''failed_exploits'' (Num 0))
      \<and> 0 \<le> as_num (dict_get s ''repeated_attempts'' (Num 0))
      \<and> 1 \<le> as_num (dict_get s ''total_attempts'' (Num 1)))"

definition attempts_bound_counts :: "stats \<Rightarrow> bool" where
  "attempts_bound_counts s =
     (as_num (dict_get s ''failed_exploits'' (Num 0))
        \<le> as_num (dict_get s ''total_attempts'' (Num 1))
      \<and> as_num (dict_get s ''repeated_attempts'' (Num 0))
        \<le> as_num (dict_get s ''total_attempts'' (Num 1)))"

definition stats_many_failures :: stats where
  "stats_many_failures =
     [(''total_interaction_time'', Num 120), (''data_points_collected'', Num 100),
      (''failed_exploits'', Num 40), (''repeated_attempts'', Num 0),
      (''abandoned'', Bool False), (''total_attempts'', Num 10)]"

text \<open>What Python prints for the six genes of \<open>genes0\<close> that enter the diversity.\<close>

definition str_values0 :: "config_values \<Rightarrow> string" where
  "str_values0 v = ''[5, 8, 0.3, 0.3, 0.4, 6]''"

text \<open>
  The ranges of \<section>3 of the specification, which are the ranges the genes are first
  sampled from, and the unit range that \<open>_mutate\<close> clamps the credential genes to.
\<close>

definition in_bounds :: "'a::linorder \<Rightarrow> 'a \<Rightarrow> 'a \<Rightarrow> bool" where
  "in_bounds lo hi x = (lo \<le> x \<and> x \<le> hi)"

definition other_genes_in_range :: "chromosome \<Rightarrow> bool" where
  "other_genes_in_range c =
     (in_bounds 3 10 (honeypot_count c)
      \<and> in_bounds 5 15 (mirage_count (mirage_config c))
      \<and> in_bounds 0.1 0.5 (mirage_mutation_rate (mirage_config c))
      \<and> in_bounds 0.3 1 (polymorphism_intensity (mirage_config c))
      \<and> in_bounds 0.1 0.8 (decoy_density (filesystem_config c))
      \<and> in_bounds 2 5 (fractal_depth (filesystem_config c))
      \<and> in_bounds 3 10 (service_diversity (network_config c))
      \<and> in_bounds 0.1 2 (response_delay (network_config c))
      \<and> in_bounds 0.5 1 (traffic_mimicry (network_config c))
      \<and> in_bounds 3.6 4 (chaos_parameter (math_config c))
      \<and> in_bounds 0.6 0.9 (entropy_target (math_config c))
      \<and> in_bounds 0.4 0.9 (fractal_complexity (math_config c)))"

definition credentials_in_declared_ranges :: "chromosome \<Rightarrow> bool" where
  "credentials_in_declared_ranges c =
     (in_bounds 0.3 0.9 (complexity (credential_config c))
      \<and> in_bounds 0.5 1 (realism_level (credential_config c))
      \<and> in_bounds 0.4 0.9 (diversity (credential_config c)))"

definition credentials_in_unit_range :: "chromosome \<Rightarrow> bool" where
  "credentials_in_unit_range c =
     (in_bounds 0 1 (complexity (credential_config c))
      \<and> in_bounds 0 1 (realism_level (credential_config c))
      \<and> in_bounds 0 1 (diversity (credential_config c)))"

definition in_declared_ranges :: "chromosome \<Rightarrow> bool" where
  "in_declared_ranges c = (other_genes_in_range c \<and> credentials_in_declared_ranges c)"

text \<open>Draws for one mutation pass and for one crossover.\<close>

definition no_mutation :: mutate_draws where
  "no_mutation =
     \<lparr>gate_honeypot_count = 0.9, delta_honeypot_count = 0,
      gate_mirage_count = 0.9, delta_mirage_count = 0,
      gate_mirage_mutation_rate = 0.9, delta_mirage_mutation_rate = 0,
      gate_complexity = 0.9, delta_complexity = 0,
      gate_realism_level = 0.9, delta_realism_level = 0,
      gate_diversity = 0.9, delta_diversity = 0,
      gate_decoy_density = 0.9, delta_decoy_density = 0,
      gate_service_diversity = 0.9, delta_service_diversity = 0,
      gate_chaos_parameter = 0.9, delta_chaos_parameter = 0\<rparr>"

definition lower_complexity :: mutate_draws where
  "lower_complexity = no_mutation\<lparr>gate_complexity := 0.1, delta_complexity := - 0.1\<rparr>"

definition raise_honeypot_count :: mutate_draws where
  "raise_honeypot_count = no_mutation\<lparr>gate_honeypot_count := 0.1, delta_honeypot_count := 2\<rparr>"

definition same_id_draws :: crossover_draws where
  "same_id_draws =
     \<lparr>swap_honeypot = 0.2, swap_mirage = 0.7, swap_credential = 0.7, swap_filesystem = 0.7,
      alpha_service_diversity = 0.5, alpha_response_delay = 0.5, alpha_traffic_mimicry = 0.5,
      alpha_chaos_parameter = 0.5, alpha_entropy_target = 0.5, alpha_fractal_complexity = 0.5,
      id_draw1 = 234, id_draw2 = 234\<rparr>"


definition skip :: "nat \<Rightarrow> nat \<Rightarrow> nat" where
  "skip p q = (if q < p then q else Suc q)"

definition tournament_of ::
    "(ref \<times> real) list \<Rightarrow> nat \<times> nat \<times> nat \<Rightarrow> ref \<Rightarrow> bool" where
  "tournament_of sp d winner =
     (\<exists>a b c w. a < length sp \<and> b < length sp \<and> c < length sp \<and> distinct [a, b, c]
        \<and> random_sample3 sp d = Inr [sp ! a, sp ! b, sp ! c]
        \<and> w \<in> {sp ! a, sp ! b, sp ! c} \<and> winner = fst w
        \<and> snd (sp ! a) \<le> snd w \<and> snd (sp ! b) \<le> snd w \<and> snd (sp ! c) \<le> snd w)"

text \<open>
  Names for the stages of \<open>evolve_generation\<close>: the score of one chromosome, the ranked
  population, the elite, the outcome of breeding, the population that is installed and the
  record that is appended.  \<open>refs_ok\<close> says that the population refers to allocated
  objects, and \<open>evolve_run\<close> is a caller that evolves once per batch of telemetry until a
  call raises.
\<close>

definition refs_ok :: "store \<Rightarrow> engine \<Rightarrow> bool" where
  "refs_ok st e = list_all (\<lambda>r. r < length st) (population e)"

definition score ::
    "(config_values \<Rightarrow> string) \<Rightarrow> engine \<Rightarrow> (string \<times> stats) list \<Rightarrow> store \<Rightarrow> ref \<Rightarrow> real" where
  "score str_values e batch st r =
     fitness_function str_values e (st ! r) (dict_get batch (chr_id (st ! r)) [])"

definition ranking ::
    "(config_values \<Rightarrow> string) \<Rightarrow> store \<Rightarrow> engine \<Rightarrow> (string \<times> stats) list
       \<Rightarrow> (ref \<times> real) list" where
  "ranking str_values st e batch =
     sort_key (\<lambda>x. - snd x) (snd (evaluate str_values e batch st (population e) []))"

definition elite_refs ::
    "(config_values \<Rightarrow> string) \<Rightarrow> store \<Rightarrow> engine \<Rightarrow> (string \<times> stats) list \<Rightarrow> ref list" where
  "elite_refs str_values st e batch =
     map fst (slice_to (elite_size e) (ranking str_values st e batch))"

definition bred ::
    "(config_values \<Rightarrow> string) \<Rightarrow> store \<Rightarrow> engine \<Rightarrow> (string \<times> stats) list \<Rightarrow> evolve_draws
       \<Rightarrow> ref list \<Rightarrow> store \<times> ref list" where
  "bred str_values st e batch rnd breeding_pool =
     breed e breeding_pool (length (elite_refs str_values st e batch)) (breed_rnd rnd) 0
       (fst (evaluate str_values e batch st (population e) [])) []"

definition installed ::
    "(config_values \<Rightarrow> string) \<Rightarrow> store \<Rightarrow> engine \<Rightarrow> (string \<times> stats) list \<Rightarrow> evolve_draws
       \<Rightarrow> ref list \<Rightarrow> ref list" where
  "installed str_values st e batch rnd breeding_pool =
     elite_refs str_values st e batch
       @ slice_to (population_size e - int (length (elite_refs str_values st e batch)))
           (snd (bred str_values st e batch rnd breeding_pool))"

definition new_record ::
    "(config_values \<Rightarrow> string) \<Rightarrow> store \<Rightarrow> engine \<Rightarrow> (string \<times> stats) list \<Rightarrow> evolution_data" where
  "new_record str_values st e batch =
     \<lparr>ev_generation = Suc (generation e),
      best_fitness = snd (hd (ranking str_values st e batch)),
      avg_fitness = mean (map snd (snd (evaluate str_values e batch st (population e) []))),
      worst_fitness = snd (last (ranking str_values st e batch)),
      best_chromosome = fst (hd (ranking str_values st e batch)),
      improvement =
        (if fitness_history e = [] then 0
         else snd (hd (ranking str_values st e batch)) - best_fitness (last (fitness_history e)))\<rparr>"

fun evolve_run ::
    "(config_values \<Rightarrow> string) \<Rightarrow> store \<Rightarrow> engine
       \<Rightarrow> ((string \<times> stats) list \<times> evolve_draws) list \<Rightarrow> error + (store \<times> engine)" where
  "evolve_run str_values st e [] = Inr (st, e)"
| "evolve_run str_values st e (call # calls) =
     (case evolve_generation str_values st e (fst call) (snd call) of
        Inl err \<Rightarrow> Inl err
      | Inr (st', e', best) \<Rightarrow> evolve_run str_values st' e' calls)"

text \<open>
  A sample run: the engine built from \<open>GA_CONFIG\<close> with four chromosomes and one elite,
  the telemetry that the demonstration driver reports for the first chromosome, and draws
  under which every child is selected for mutation.
\<close>

definition demo_config :: ga_config where
  "demo_config = GA_CONFIG\<lparr>cfg_population_size := 4, cfg_elite_size := 1\<rparr>"

definition demo_store :: store where
  "demo_store = fst (init demo_config (\<lambda>i. genes0))"

definition demo_engine :: engine where
  "demo_engine = snd (init demo_config (\<lambda>i. genes0))"

definition stats_lateral_movement :: stats where
  "stats_lateral_movement =
     [(''total_interaction_time'', Num 45), (''data_points_collected'', Num 67),
      (''failed_exploits'', Num 12), (''repeated_attempts'', Num 8),
      (''abandoned'', Bool False), (''total_attempts'', Num 20)]"

definition demo_batch :: "(string \<times> stats) list" where
  "demo_batch = [(''gen0_chr0'', stats_lateral_movement)]"

definition demo_draws :: evolve_draws where
  "demo_draws =
     \<lparr>tournament_rnd = (\<lambda>i. (i, i, i)),
      breed_rnd = (\<lambda>i. \<lparr>choice1 = 0, choice2 = 1, crossover_gate = 0.5,
                          crossover_rnd = same_id_draws\<rparr>),
      mutation_rnd = (\<lambda>i. (0, raise_honeypot_count))\<rparr>"


section \<open>Properties\<close>

subsection \<open>The diversity score\<close>

lemma hamming_distance_range: "0 \<le> hamming_distance a b \<and> hamming_distance a b \<le> 1"
proof (cases "max (length a) (length b) = 0")
  case True
  then show ?thesis by (simp add: hamming_distance_def)
next
  case False
  let ?n = "max (length a) (length b)"
  let ?d = "length (filter (\<lambda>(c1, c2). c1 \<noteq> c2) (zip (ljust a ?n) (ljust b ?n)))"
  have "?d \<le> length (zip (ljust a ?n) (ljust b ?n))" by (rule length_filter_le)
  also have "\<dots> = ?n" by (simp add: ljust_def)
  finally have "real ?d \<le> real ?n" by simp
  moreover have "0 < real ?n" using False by linarith
  ultimately have "0 \<le> real ?d / real ?n \<and> real ?d / real ?n \<le> 1" by simp
  moreover have "hamming_distance a b = real ?d / real ?n"
    using False unfolding hamming_distance_def Let_def by (simp only: if_False)
  ultimately show ?thesis by simp
qed

lemma get_or_memory_le: "get_or m 0 \<le> get_or m (1::real)"
  by (cases m) (simp_all add: get_or_def)

lemma memory_diff_range:
  assumes "snapshot_ok cur" "snapshot_ok prev" "memory_denominator cur prev \<noteq> 0"
  shows "0 \<le> \<bar>get_or (memory cur) 0 - get_or (memory prev) 0\<bar> / memory_denominator cur prev"
    and "\<bar>get_or (memory cur) 0 - get_or (memory prev) 0\<bar> / memory_denominator cur prev \<le> 1"
proof -
  let ?a = "get_or (memory cur) 0" and ?b = "get_or (memory prev) 0"
  have a: "0 \<le> ?a" and b: "0 \<le> ?b" using assms by (simp_all add: snapshot_ok_def)
  have "\<bar>?a - ?b\<bar> \<le> max ?a ?b" using a b by simp
  also have "\<dots> \<le> memory_denominator cur prev"
    unfolding memory_denominator_def
    using get_or_memory_le [of "memory cur"] get_or_memory_le [of "memory prev"] by linarith
  finally have le: "\<bar>?a - ?b\<bar> \<le> memory_denominator cur prev" .
  then have pos: "0 < memory_denominator cur prev" using assms(3) by simp
  show "0 \<le> \<bar>?a - ?b\<bar> / memory_denominator cur prev" using pos by simp
  show "\<bar>?a - ?b\<bar> / memory_denominator cur prev \<le> 1" using pos le by simp
qed

lemma cpu_diff_range:
  assumes "snapshot_ok cur" "snapshot_ok prev"
  shows "0 \<le> \<bar>get_or (cpu cur) 0 - get_or (cpu prev) 0\<bar> / 100"
    and "\<bar>get_or (cpu cur) 0 - get_or (cpu prev) 0\<bar> / 100 \<le> 1"
proof -
  have "\<bar>get_or (cpu cur) 0 - get_or (cpu prev) 0\<bar> \<le> 100"
    using assms unfolding snapshot_ok_def by linarith
  then show "\<bar>get_or (cpu cur) 0 - get_or (cpu prev) 0\<bar> / 100 \<le> 1" by simp
  show "0 \<le> \<bar>get_or (cpu cur) 0 - get_or (cpu prev) 0\<bar> / 100" by simp
qed

lemma state_diversity_ok:
  assumes "snapshot_ok cur" "snapshot_ok prev" "memory_denominator cur prev \<noteq> 0"
  shows "state_diversity cur prev = Inr (diversity_term cur prev)"
    and "0 \<le> diversity_term cur prev" and "diversity_term cur prev \<le> 1"
proof -
  show "state_diversity cur prev = Inr (diversity_term cur prev)"
    using assms(3)
    by (simp add: state_diversity_def diversity_term_def Let_def memory_denominator_def)
  let ?h = "hamming_distance (get_or (name cur) []) (get_or (name prev) [])"
  let ?m = "\<bar>get_or (memory cur) 0 - get_or (memory prev) 0\<bar> / memory_denominator cur prev"
  let ?c = "\<bar>get_or (cpu cur) 0 - get_or (cpu prev) 0\<bar> / 100"
  have h: "0 \<le> ?h" "?h \<le> 1" using hamming_distance_range by simp_all
  have m: "0 \<le> ?m" "?m \<le> 1" using memory_diff_range [OF assms] by simp_all
  have c: "0 \<le> ?c" "?c \<le> 1" using cpu_diff_range [OF assms(1,2)] by simp_all
  have eq: "diversity_term cur prev = 0.4 * ?h + 0.3 * ?m + 0.3 * ?c"
    by (simp add: diversity_term_def memory_denominator_def)
  show "0 \<le> diversity_term cur prev" using h m c unfolding eq by simp
  show "diversity_term cur prev \<le> 1" using h m c unfolding eq by simp
qed

lemma diversity_scores_ok:
  assumes "snapshot_ok cur"
    and "\<forall>p \<in> set ps. snapshot_ok p \<and> memory_denominator cur p \<noteq> 0"
  shows "diversity_scores cur ps = Inr (map (diversity_term cur) ps)"
  using assms(2)
proof (induction ps)
  case Nil
  show ?case by simp
next
  case (Cons p ps)
  then show ?case using state_diversity_ok(1) [OF assms(1), of p] by simp
qed

lemma mean_range:
  assumes "xs \<noteq> []" "\<forall>x \<in> set xs. 0 \<le> x \<and> x \<le> (1::real)"
  shows "0 \<le> mean xs \<and> mean xs \<le> 1"
proof -
  have lo: "0 \<le> sum_list xs" using assms(2) by (simp add: sum_list_nonneg)
  have hi: "sum_list xs \<le> real (length xs)"
    using assms(2) by (induction xs) auto
  have "0 < real (length xs)" using assms(1) by simp
  with lo hi show ?thesis by (simp add: mean_def)
qed

lemma last5_nonempty: "xs \<noteq> [] \<Longrightarrow> last5 xs \<noteq> []"
  by (cases xs) (simp_all add: last5_def)

text \<open>
  C9 (as amended).  When memory values are not negative, cpu values lie in [0, 100] and no
  pair of compared states has the memory denominator zero, the diversity score is defined,
  lies in [0, 1] and is the mean, over the last five prior states supplied, of
  0.4 * normalized hamming distance of the names + 0.3 * |memory - memory'| / max(memory, memory')
  + 0.3 * |cpu - cpu'| / 100; it is 0 when no prior state is supplied.
\<close>

theorem diversity_score_last_five:
  assumes "snapshot_ok cur"
    and "\<forall>p \<in> set (last5 prevs). snapshot_ok p \<and> memory_denominator cur p \<noteq> 0"
  shows "\<exists>v. calculate_genetic_diversity_score cur prevs = Inr v \<and> 0 \<le> v \<and> v \<le> 1
           \<and> v = (if prevs = [] then 0 else mean (map (diversity_term cur) (last5 prevs)))"
proof (cases "prevs = []")
  case True
  then show ?thesis by (simp add: calculate_genetic_diversity_score_def)
next
  case False
  let ?ds = "map (diversity_term cur) (last5 prevs)"
  have run: "diversity_scores cur (last5 prevs) = Inr ?ds"
    using diversity_scores_ok [OF assms] .
  have "\<forall>x \<in> set ?ds. 0 \<le> x \<and> x \<le> 1"
    using assms state_diversity_ok(2,3) by auto
  moreover have "?ds \<noteq> []" using False last5_nonempty by simp
  ultimately have "0 \<le> mean ?ds \<and> mean ?ds \<le> 1" by (rule mean_range [rotated])
  with False run show ?thesis by (simp add: calculate_genetic_diversity_score_def)
qed

lemma hamming_mysqld_nginx: "hamming_distance ''mysqld'' ''nginx'' = 1"
  by (simp add: hamming_distance_def ljust_def Let_def)

theorem diversity_score_last_five_witness:
  "snapshot_ok snap_mysqld \<and> snapshot_ok snap_nginx
   \<and> memory_denominator snap_mysqld snap_nginx \<noteq> 0
   \<and> calculate_genetic_diversity_score snap_mysqld [snap_nginx] = Inr (7 / 10)"
proof -
  have ok: "snapshot_ok snap_mysqld" "snapshot_ok snap_nginx"
    by (simp_all add: snapshot_ok_def snap_mysqld_def snap_nginx_def get_or_def)
  have den: "memory_denominator snap_mysqld snap_nginx \<noteq> 0"
    by (simp add: memory_denominator_def snap_mysqld_def snap_nginx_def get_or_def)
  have "\<forall>p \<in> set (last5 [snap_nginx]). snapshot_ok p \<and> memory_denominator snap_mysqld p \<noteq> 0"
    using ok den by (simp add: last5_def)
  from diversity_score_last_five [OF ok(1) this]
  have "calculate_genetic_diversity_score snap_mysqld [snap_nginx]
          = Inr (mean (map (diversity_term snap_mysqld) (last5 [snap_nginx])))"
    by auto
  also have "mean (map (diversity_term snap_mysqld) (last5 [snap_nginx])) = 7 / 10"
    by (simp add: last5_def mean_def diversity_term_def snap_mysqld_def snap_nginx_def
        get_or_def hamming_mysqld_nginx)
  finally show ?thesis using ok den by simp
qed

lemma hamming_distance_same: "hamming_distance s s = 0"
proof -
  have "filter (\<lambda>(c1, c2). c1 \<noteq> c2) (zip xs xs) = []" for xs :: string
    by (induction xs) auto
  then show ?thesis by (simp add: hamming_distance_def Let_def)
qed

text \<open>
  C9 (as stated) fails: two states that both report memory 0 make the memory term divide
  by zero, and a cpu reading of 500 against one of 0 gives the score 1.5.
\<close>

theorem diversity_score_zero_memory_counterexample:
  "calculate_genetic_diversity_score snap_zero [snap_zero] = Inl ZeroDivisionError
   \<and> calculate_genetic_diversity_score snap_busy [snap_idle] = Inr (3 / 2)"
  by (simp add: calculate_genetic_diversity_score_def last5_def snap_zero_def snap_busy_def
      snap_idle_def state_diversity_def memory_denominator_def get_or_def Let_def
      hamming_distance_same mean_def)


subsection \<open>Queries on the live population\<close>

lemma max_by_mem: "max_by f x xs \<in> set (x # xs)"
  by (induction xs arbitrary: x) auto

lemma max_by_ge: "\<forall>y \<in> set (x # xs). f y \<le> f (max_by f x xs)"
proof (induction xs arbitrary: x)
  case Nil
  show ?case by simp
next
  case (Cons z zs)
  show ?case
  proof (cases "f x < f z")
    case True
    have "f z \<le> f (max_by f z zs)" using Cons.IH [of z] by simp
    with True have "f x \<le> f (max_by f z zs)" by simp
    with True Cons.IH [of z] show ?thesis by simp
  next
    case False
    have "f x \<le> f (max_by f x zs)" using Cons.IH [of x] by simp
    with False have "f z \<le> f (max_by f x zs)" by simp
    with False Cons.IH [of x] show ?thesis by simp
  qed
qed

text \<open>
  C10.  On an empty population \<open>get_best_chromosome\<close> and \<open>export_best_strategy\<close> return
  \<open>None\<close>; on a non-empty one \<open>get_best_chromosome\<close> returns a member of the population
  whose fitness no member exceeds, and \<open>export_best_strategy\<close> exports that chromosome.
\<close>

theorem best_chromosome_queries:
  "(population e = [] \<longrightarrow>
      get_best_chromosome st e = None \<and> export_best_strategy st e = None)
   \<and> (population e \<noteq> [] \<longrightarrow>
      (\<exists>r. get_best_chromosome st e = Some r \<and> r \<in> set (population e)
         \<and> (\<forall>x \<in> set (population e). fitness (st ! x) \<le> fitness (st ! r))
         \<and> (\<exists>s. export_best_strategy st e = Some s \<and> strategy_id s = chr_id (st ! r)
               \<and> fitness_score s = fitness (st ! r)
               \<and> strategy_generation s = generation_created (st ! r))))"
proof (cases "population e")
  case Nil
  then show ?thesis by (simp add: get_best_chromosome_def export_best_strategy_def)
next
  case (Cons r rs)
  let ?b = "max_by (\<lambda>x. fitness (st ! x)) r rs"
  have g: "get_best_chromosome st e = Some ?b" using Cons by (simp add: get_best_chromosome_def)
  have m: "?b \<in> set (population e)" using Cons max_by_mem [of _ r rs] by simp
  have ge: "\<forall>x \<in> set (population e). fitness (st ! x) \<le> fitness (st ! ?b)"
    using Cons max_by_ge [of r rs "\<lambda>x. fitness (st ! x)"] by simp
  show ?thesis using Cons g m ge by (simp add: export_best_strategy_def Let_def)
qed

theorem best_chromosome_queries_witness:
  "get_best_chromosome [] (engine_with []) = None
   \<and> export_best_strategy [] (engine_with []) = None
   \<and> get_best_chromosome store2 (engine_with [0, 1]) = Some 1
   \<and> (\<exists>s. export_best_strategy store2 (engine_with [0, 1]) = Some s
         \<and> strategy_id s = ''gen0_chr1'' \<and> fitness_score s = 40)"
  using best_chromosome_queries [of "engine_with []" "[]"]
    best_chromosome_queries [of "engine_with [0, 1]" store2]
  by (auto simp: engine_with_def store2_def get_best_chromosome_def)


subsection \<open>Construction\<close>

lemma str_nat_0: "str_nat 0 = ''0''"
  by (simp add: str_nat.simps digit_char_def)

text \<open>
  C5 (as amended).  Construction checks nothing and cannot fail: for every configuration
  it yields an engine with the configured parameters, generation 0, empty histories and
  \<open>max(population_size, 0)\<close> chromosomes named \<open>gen0_chr0\<close>, \<open>gen0_chr1\<close>, ... with
  fitness 0 and no parents.
\<close>

theorem init_never_fails:
  "\<exists>st e. init cfg rnd = (st, e)
     \<and> population_size e = cfg_population_size cfg \<and> mutation_rate e = cfg_mutation_rate cfg
     \<and> crossover_rate e = cfg_crossover_rate cfg \<and> elite_size e = cfg_elite_size cfg
     \<and> fitness_weights e = cfg_fitness_weights cfg
     \<and> generation e = 0 \<and> fitness_history e = [] \<and> best_chromosome_history e = []
     \<and> length st = nat (cfg_population_size cfg) \<and> population e = [0..<length st]
     \<and> (\<forall>i < length st. chr_id (st ! i) = ''gen0_chr'' @ str_nat i \<and> fitness (st ! i) = 0
           \<and> generation_created (st ! i) = 0 \<and> parent_ids (st ! i) = [])"
  by (simp add: init_def Let_def initialize_population_def create_random_chromosome_def)

theorem init_never_fails_witness:
  "\<exists>st e. init GA_CONFIG (\<lambda>i. genes0) = (st, e) \<and> population_size e = 20 \<and> length st = 20
     \<and> population e = [0..<20] \<and> generation e = 0 \<and> chr_id (st ! 0) = ''gen0_chr0''"
  using init_never_fails [of GA_CONFIG "\<lambda>i. genes0"]
  by (auto simp: GA_CONFIG_def str_nat_0)


text \<open>
  C5 (as stated) fails: a configuration with population size 1, elite size 4 and mutation
  rate 1.5 is invalid on all three counts, and construction returns a complete engine.
\<close>

theorem init_invalid_config_counterexample:
  "\<not> config_valid tiny_config
   \<and> init tiny_config (\<lambda>i. genes0) =
       ([genes0\<lparr>chr_id := ''gen0_chr0''\<rparr>],
        \<lparr>population_size = 1, mutation_rate = 1.5, crossover_rate = 0.8, elite_size = 4,
         fitness_weights = cfg_fitness_weights GA_CONFIG,
         population = [0], generation = 0, fitness_history = [],
         best_chromosome_history = []\<rparr>)"
  by (simp add: config_valid_def tiny_config_def GA_CONFIG_def init_def Let_def
      initialize_population_def create_random_chromosome_def str_nat_0 genes0_def)


subsection \<open>Fitness\<close>

lemma entropy_term_nonpos:
  assumes "0 < p" "p \<le> (1::real)"
  shows "p * log 2 p \<le> 0"
proof -
  have "log 2 p \<le> 0" using assms by (simp add: zero_less_log_cancel_iff log_le_zero_cancel_iff)
  with assms(1) show ?thesis by (simp add: mult_le_0_iff)
qed

lemma calculate_entropy_nonneg: "0 \<le> calculate_entropy s"
proof (cases "s = []")
  case True
  then show ?thesis by (simp add: calculate_entropy_def)
next
  case False
  let ?t = "\<lambda>c. let p = real (count_list s c) / real (length s)
                   in if 0 < p then p * log 2 p else 0"
  have "?t c \<le> 0" for c
  proof -
    define p where "p = real (count_list s c) / real (length s)"
    have "p \<le> 1"
      using False count_le_length [of s c] by (simp add: p_def divide_le_eq_1)
    then have "(if 0 < p then p * log 2 p else 0) \<le> 0"
      using entropy_term_nonpos [of p] by simp
    then show ?thesis unfolding p_def Let_def .
  qed
  then have "sum_list (map ?t (remdups s)) \<le> 0"
    by (intro sum_list_nonpos) auto
  then show ?thesis using False by (simp add: calculate_entropy_def)
qed

lemma calculate_chromosome_diversity_range:
  "0 \<le> calculate_chromosome_diversity sv c \<and> calculate_chromosome_diversity sv c \<le> 1"
  using calculate_entropy_nonneg by (simp add: calculate_chromosome_diversity_def Let_def)

lemma fitness_function_empty: "fitness_function sv e c [] = 0"
  by (simp add: fitness_function_def)

lemma fitness_function_many_failures:
  assumes "fitness_weights e = cfg_fitness_weights GA_CONFIG"
  shows "fitness_function sv e c stats_many_failures
           = 1050 + 200 * calculate_chromosome_diversity sv c"
  using assms
  by (simp add: fitness_function_def stats_many_failures_def dict_get_def GA_CONFIG_def Let_def)

lemma weighted_sum_range:
  fixes es ds fa ra ab dv :: real
  assumes "0 \<le> es" "es \<le> 1" "0 \<le> ds" "ds \<le> 1" "0 \<le> fa" "fa \<le> 1" "0 \<le> ra" "ra \<le> 1"
    "0 \<le> ab" "ab \<le> 0.2" "0 \<le> dv" "dv \<le> 1"
  shows "0 \<le> es * 0.3 + ds * 0.25 + (fa * 0.5 + ra * 0.3 + ab) * 0.25 + dv * 0.2"
    and "es * 0.3 + ds * 0.25 + (fa * 0.5 + ra * 0.3 + ab) * 0.25 + dv * 0.2 \<le> 1"
proof -
  have eq: "es * 0.3 + ds * 0.25 + (fa * 0.5 + ra * 0.3 + ab) * 0.25 + dv * 0.2
          = (12 * es + 10 * ds + (5 * fa + 3 * ra + 10 * ab) + 8 * dv) / 40"
    by (simp add: field_simps)
  have ab5: "5 * ab \<le> 1" using assms(10) by simp
  have "12 * es + 10 * ds + (5 * fa + 3 * ra + 10 * ab) + 8 * dv \<le> 40"
    using assms(1-9,11,12) ab5 by linarith
  then show "es * 0.3 + ds * 0.25 + (fa * 0.5 + ra * 0.3 + ab) * 0.25 + dv * 0.2 \<le> 1"
    unfolding eq by simp
  have "0 \<le> 12 * es + 10 * ds + (5 * fa + 3 * ra + 10 * ab) + 8 * dv"
    using assms(1-9,11,12) by linarith
  then show "0 \<le> es * 0.3 + ds * 0.25 + (fa * 0.5 + ra * 0.3 + ab) * 0.25 + dv * 0.2"
    unfolding eq by simp
qed

lemma fitness_function_range_when_attempts_bound:
  assumes w: "fitness_weights e = cfg_fitness_weights GA_CONFIG"
    and dom: "stats_in_domain s" and bnd: "attempts_bound_counts s"
  shows "0 \<le> fitness_function sv e c s \<and> fitness_function sv e c s \<le> 1000"
proof (cases "s = []")
  case True
  then show ?thesis by (simp add: fitness_function_def)
next
  case False
  define t where "t = as_num (dict_get s ''total_interaction_time'' (Num 0))"
  define p where "p = as_num (dict_get s ''data_points_collected'' (Num 0))"
  define f where "f = as_num (dict_get s ''failed_exploits'' (Num 0))"
  define r where "r = as_num (dict_get s ''repeated_attempts'' (Num 0))"
  define a where "a = as_num (dict_get s ''total_attempts'' (Num 1))"
  define ab where "ab = (if truthy (dict_get s ''abandoned'' (Bool False)) then 0.2 else (0::real))"
  define dv where "dv = calculate_chromosome_diversity sv c"
  have d: "0 \<le> t" "0 \<le> p" "0 \<le> f" "0 \<le> r" "1 \<le> a" "f \<le> a" "r \<le> a"
    using dom bnd by (simp_all add: stats_in_domain_def attempts_bound_counts_def t_def p_def f_def r_def a_def)
  define es where "es = min (t / 120) 1"
  define ds where "ds = min (p / 100) 1"
  define fa where "fa = f / a"
  define ra where "ra = r / a"
  have es: "0 \<le> es" "es \<le> 1" using d by (simp_all add: es_def)
  have ds: "0 \<le> ds" "ds \<le> 1" using d by (simp_all add: ds_def)
  have fa: "0 \<le> fa" "fa \<le> 1" using d by (simp_all add: fa_def divide_le_eq_1)
  have ra: "0 \<le> ra" "ra \<le> 1" using d by (simp_all add: ra_def divide_le_eq_1)
  have abr: "0 \<le> ab" "ab \<le> 0.2" by (simp_all add: ab_def)
  have dvr: "0 \<le> dv" "dv \<le> 1" using calculate_chromosome_diversity_range by (simp_all add: dv_def)
  have "max a 1 = a" using d(5) by simp
  then have eq: "fitness_function sv e c s =
      (es * 0.3 + ds * 0.25 + (fa * 0.5 + ra * 0.3 + ab) * 0.25 + dv * 0.2) * 1000"
    using False w
    unfolding fitness_function_def Let_def GA_CONFIG_def t_def [symmetric] p_def [symmetric]
      f_def [symmetric] r_def [symmetric] a_def [symmetric] ab_def [symmetric] dv_def [symmetric]
      es_def fa_def ra_def ds_def
    by simp
  define total where "total = es * 0.3 + ds * 0.25 + (fa * 0.5 + ra * 0.3 + ab) * 0.25 + dv * 0.2"
  have "0 \<le> total"
    unfolding total_def using es ds fa ra abr dvr by (rule weighted_sum_range(1))
  moreover have "total \<le> 1"
    unfolding total_def using es ds fa ra abr dvr by (rule weighted_sum_range(2))
  moreover have "fitness_function sv e c s = total * 1000"
    unfolding eq total_def ..
  ultimately show ?thesis by simp
qed


text \<open>
  C4.  With the weights of \<open>GA_CONFIG\<close>, the telemetry record \<open>stats_many_failures\<close> (40
  failed exploits in 10 attempts) lies in the documented domain and its fitness exceeds
  1000, whatever the chromosome: the confusion term is not clamped.  The bound [0, 1000]
  holds where neither count exceeds the attempts (lemma
  \<open>fitness_function_range_when_attempts_bound\<close>), and an empty record gives 0 (lemma
  \<open>fitness_function_empty\<close>).
\<close>

theorem fitness_function_exceeds_1000:
  assumes "fitness_weights e = cfg_fitness_weights GA_CONFIG"
  shows "stats_in_domain stats_many_failures \<and> 1000 < fitness_function sv e c stats_many_failures"
proof -
  have "0 \<le> calculate_chromosome_diversity sv c"
    using calculate_chromosome_diversity_range by simp
  then have "1000 < fitness_function sv e c stats_many_failures"
    unfolding fitness_function_many_failures [OF assms] by simp
  moreover have "stats_in_domain stats_many_failures"
    by (simp add: stats_in_domain_def stats_many_failures_def dict_get_def)
  ultimately show ?thesis by simp
qed

theorem fitness_function_exceeds_1000_witness:
  "fitness_weights (engine_with []) = cfg_fitness_weights GA_CONFIG
   \<and> stats_in_domain stats_many_failures
   \<and> 1000 < fitness_function str_values0 (engine_with []) genes0 stats_many_failures"
proof -
  have w: "fitness_weights (engine_with []) = cfg_fitness_weights GA_CONFIG"
    by (simp add: engine_with_def)
  from fitness_function_exceeds_1000 [OF w] w show ?thesis by simp
qed


subsection \<open>Mutation\<close>

lemma in_bounds_clamp: "lo \<le> hi \<Longrightarrow> in_bounds lo hi (clamp lo hi x)"
  by (simp add: in_bounds_def clamp_def)

lemma mutate_honeypot_count_other:
  "other_genes_in_range c \<Longrightarrow> other_genes_in_range (mutate_honeypot_count d c)"
  by (simp add: other_genes_in_range_def mutate_honeypot_count_def in_bounds_clamp)

lemma mutate_mirage_count_other:
  "other_genes_in_range c \<Longrightarrow> other_genes_in_range (mutate_mirage_count d c)"
  by (simp add: other_genes_in_range_def mutate_mirage_count_def in_bounds_clamp)

lemma mutate_mirage_mutation_rate_other:
  "other_genes_in_range c \<Longrightarrow> other_genes_in_range (mutate_mirage_mutation_rate d c)"
  by (simp add: other_genes_in_range_def mutate_mirage_mutation_rate_def in_bounds_clamp)

lemma mutate_complexity_other:
  "other_genes_in_range c \<Longrightarrow> other_genes_in_range (mutate_complexity d c)"
  by (simp add: other_genes_in_range_def mutate_complexity_def)

lemma mutate_realism_level_other:
  "other_genes_in_range c \<Longrightarrow> other_genes_in_range (mutate_realism_level d c)"
  by (simp add: other_genes_in_range_def mutate_realism_level_def)

lemma mutate_diversity_other:
  "other_genes_in_range c \<Longrightarrow> other_genes_in_range (mutate_diversity d c)"
  by (simp add: other_genes_in_range_def mutate_diversity_def)

lemma mutate_decoy_density_other:
  "other_genes_in_range c \<Longrightarrow> other_genes_in_range (mutate_decoy_density d c)"
  by (simp add: other_genes_in_range_def mutate_decoy_density_def in_bounds_clamp)

lemma mutate_service_diversity_other:
  "other_genes_in_range c \<Longrightarrow> other_genes_in_range (mutate_service_diversity d c)"
  by (simp add: other_genes_in_range_def mutate_service_diversity_def in_bounds_clamp)

lemma mutate_chaos_parameter_other:
  "other_genes_in_range c \<Longrightarrow> other_genes_in_range (mutate_chaos_parameter d c)"
  by (simp add: other_genes_in_range_def mutate_chaos_parameter_def in_bounds_clamp)

lemma mutate_other_genes: "other_genes_in_range c \<Longrightarrow> other_genes_in_range (mutate c d)"
  unfolding mutate_def
  by (intro mutate_chaos_parameter_other mutate_service_diversity_other
      mutate_decoy_density_other mutate_diversity_other mutate_realism_level_other
      mutate_complexity_other mutate_mirage_mutation_rate_other mutate_mirage_count_other
      mutate_honeypot_count_other)

lemma mutate_step_credentials:
  assumes "credentials_in_unit_range c"
  shows "credentials_in_unit_range (mutate_honeypot_count d c)"
    and "credentials_in_unit_range (mutate_mirage_count d c)"
    and "credentials_in_unit_range (mutate_mirage_mutation_rate d c)"
    and "credentials_in_unit_range (mutate_complexity d c)"
    and "credentials_in_unit_range (mutate_realism_level d c)"
    and "credentials_in_unit_range (mutate_diversity d c)"
    and "credentials_in_unit_range (mutate_decoy_density d c)"
    and "credentials_in_unit_range (mutate_service_diversity d c)"
    and "credentials_in_unit_range (mutate_chaos_parameter d c)"
  using assms
  by (simp_all add: credentials_in_unit_range_def in_bounds_clamp mutate_honeypot_count_def
      mutate_mirage_count_def mutate_mirage_mutation_rate_def mutate_complexity_def
      mutate_realism_level_def mutate_diversity_def mutate_decoy_density_def
      mutate_service_diversity_def mutate_chaos_parameter_def)

lemma mutate_credentials:
  "credentials_in_unit_range c \<Longrightarrow> credentials_in_unit_range (mutate c d)"
  unfolding mutate_def by (intro mutate_step_credentials)

lemma declared_credentials_in_unit_range:
  "credentials_in_declared_ranges c \<Longrightarrow> credentials_in_unit_range c"
  by (simp add: credentials_in_declared_ranges_def credentials_in_unit_range_def in_bounds_def)

lemma foldl_mutate_ranges:
  "other_genes_in_range c \<Longrightarrow> credentials_in_unit_range c \<Longrightarrow>
   other_genes_in_range (foldl mutate c ds) \<and> credentials_in_unit_range (foldl mutate c ds)"
  by (induction ds arbitrary: c) (simp_all add: mutate_other_genes mutate_credentials)

text \<open>
  C2 (as amended).  For a chromosome whose genes lie in their declared ranges and any
  sequence of mutation passes, every bounded gene other than the three credential genes
  stays in its declared range, and the credential genes stay in [0, 1], the range they are
  clamped to.
\<close>

theorem mutation_keeps_clamp_ranges:
  assumes "in_declared_ranges c"
  shows "other_genes_in_range (foldl mutate c ds) \<and> credentials_in_unit_range (foldl mutate c ds)"
  using assms foldl_mutate_ranges declared_credentials_in_unit_range
  by (simp add: in_declared_ranges_def)

lemma genes0_in_declared_ranges: "in_declared_ranges genes0"
  by (simp add: in_declared_ranges_def other_genes_in_range_def
      credentials_in_declared_ranges_def genes0_def in_bounds_def)

lemma mutate_lower_complexity:
  "mutate genes0 lower_complexity
     = genes0\<lparr>credential_config := (credential_config genes0)\<lparr>complexity := 0.2\<rparr>\<rparr>"
  by (simp add: mutate_def mutate_honeypot_count_def
      mutate_mirage_count_def mutate_mirage_mutation_rate_def mutate_complexity_def
      mutate_realism_level_def mutate_diversity_def mutate_decoy_density_def
      mutate_service_diversity_def mutate_chaos_parameter_def lower_complexity_def
      no_mutation_def clamp_def genes0_def)

lemma mutate_raise_honeypot_count:
  "mutate genes0 raise_honeypot_count = genes0\<lparr>honeypot_count := 7\<rparr>"
  by (simp add: mutate_def mutate_honeypot_count_def
      mutate_mirage_count_def mutate_mirage_mutation_rate_def mutate_complexity_def
      mutate_realism_level_def mutate_diversity_def mutate_decoy_density_def
      mutate_service_diversity_def mutate_chaos_parameter_def raise_honeypot_count_def
      no_mutation_def clamp_def genes0_def)

theorem mutation_keeps_clamp_ranges_witness:
  "in_declared_ranges genes0
   \<and> other_genes_in_range (foldl mutate genes0 [raise_honeypot_count])
   \<and> credentials_in_unit_range (foldl mutate genes0 [raise_honeypot_count])
   \<and> honeypot_count (foldl mutate genes0 [raise_honeypot_count]) = 7"
  using mutation_keeps_clamp_ranges [OF genes0_in_declared_ranges, of "[raise_honeypot_count]"]
    genes0_in_declared_ranges
  by (simp add: mutate_raise_honeypot_count)

text \<open>
  C2 (as stated) fails: one mutation pass takes \<open>complexity\<close> from 0.3 to 0.2, below its
  declared range [0.3, 0.9].
\<close>

theorem mutation_leaves_declared_range_counterexample:
  "in_declared_ranges genes0
   \<and> complexity (credential_config (mutate genes0 lower_complexity)) = 0.2
   \<and> \<not> in_declared_ranges (mutate genes0 lower_complexity)"
  using genes0_in_declared_ranges
  by (simp add: mutate_lower_complexity in_declared_ranges_def
      credentials_in_declared_ranges_def in_bounds_def)



subsection \<open>Crossover\<close>

text \<open>
  C3 (as amended).  Each child of a crossover has the id \<open>gen<g>_chr<n>\<close> for the current
  generation \<open>g\<close> and its own draw \<open>n\<close> from 1000..9999, the ids of the two parents as
  \<open>parent_ids\<close>, the current generation as \<open>generation_created\<close>, and the fitness of the
  parent it was copied from.
\<close>

theorem crossover_children_metadata:
  assumes "crossover e parent1 parent2 d = (child1, child2)"
  shows "chr_id child1 = ''gen'' @ str_nat (generation e) @ ''_chr''
                            @ str_nat (randint_1000_9999 (id_draw1 d))
     \<and> chr_id child2 = ''gen'' @ str_nat (generation e) @ ''_chr''
                            @ str_nat (randint_1000_9999 (id_draw2 d))
     \<and> 1000 \<le> randint_1000_9999 (id_draw1 d) \<and> randint_1000_9999 (id_draw1 d) \<le> 9999
     \<and> 1000 \<le> randint_1000_9999 (id_draw2 d) \<and> randint_1000_9999 (id_draw2 d) \<le> 9999
     \<and> parent_ids child1 = [chr_id parent1, chr_id parent2]
     \<and> parent_ids child2 = [chr_id parent1, chr_id parent2]
     \<and> generation_created child1 = generation e \<and> generation_created child2 = generation e
     \<and> fitness child1 = fitness parent1 \<and> fitness child2 = fitness parent2"
proof -
  have "id_draw1 d mod 9000 < 9000" "id_draw2 d mod 9000 < 9000" by simp_all
  then have "randint_1000_9999 (id_draw1 d) \<le> 9999" "randint_1000_9999 (id_draw2 d) \<le> 9999"
    unfolding randint_1000_9999_def by linarith+
  then show ?thesis
    using assms by (auto simp: crossover_def crossover_child_def randint_1000_9999_def)
qed

theorem crossover_children_metadata_witness:
  "fitness (fst (crossover (engine_with [0, 1]) (store2 ! 0) (store2 ! 1) same_id_draws)) = 10
   \<and> fitness (snd (crossover (engine_with [0, 1]) (store2 ! 0) (store2 ! 1) same_id_draws)) = 40
   \<and> parent_ids (fst (crossover (engine_with [0, 1]) (store2 ! 0) (store2 ! 1) same_id_draws))
       = [''gen0_chr0'', ''gen0_chr1'']"
  using crossover_children_metadata [of "engine_with [0, 1]" "store2 ! 0" "store2 ! 1" same_id_draws
      "fst (crossover (engine_with [0, 1]) (store2 ! 0) (store2 ! 1) same_id_draws)"
      "snd (crossover (engine_with [0, 1]) (store2 ! 0) (store2 ! 1) same_id_draws)"]
  by (simp add: store2_def)

text \<open>
  C3 (as stated) fails: when both id draws give the same number the two children share an
  id, and the second child keeps the fitness 40 of its parent.
\<close>

theorem crossover_child_id_fitness_counterexample:
  "chr_id (fst (crossover (engine_with [0, 1]) (store2 ! 0) (store2 ! 1) same_id_draws))
     = chr_id (snd (crossover (engine_with [0, 1]) (store2 ! 0) (store2 ! 1) same_id_draws))
   \<and> fitness (snd (crossover (engine_with [0, 1]) (store2 ! 0) (store2 ! 1) same_id_draws)) = 40"
  by (simp add: crossover_def crossover_child_def same_id_draws_def store2_def)


subsection \<open>Tournament selection\<close>

lemma skip_neq: "skip p q \<noteq> p"
  by (simp add: skip_def)

lemma skip_inj: "skip p q = skip p q' \<Longrightarrow> q = q'"
  by (auto simp: skip_def split: if_splits)

lemma skip_less: "q < n - 1 \<Longrightarrow> skip p q < n"
  by (auto simp: skip_def)

lemma take_at_nth:
  assumes "xs \<noteq> []"
  shows "fst (take_at d xs) = xs ! (d mod length xs)"
    and "length (snd (take_at d xs)) = length xs - 1"
    and "q < length xs - 1 \<Longrightarrow> snd (take_at d xs) ! q = xs ! skip (d mod length xs) q"
proof -
  let ?p = "d mod length xs"
  have p: "?p < length xs" using assms by simp
  show "fst (take_at d xs) = xs ! ?p" by (simp add: take_at_def Let_def)
  show "length (snd (take_at d xs)) = length xs - 1"
    using p by (simp add: take_at_def Let_def)
  show "snd (take_at d xs) ! q = xs ! skip ?p q" if "q < length xs - 1"
    using p that by (auto simp: take_at_def Let_def nth_append skip_def min_def)
qed

lemma random_sample3_eq:
  assumes "3 \<le> length xs"
  shows "random_sample3 xs (i, j, k)
           = Inr [xs ! (i mod length xs),
                  xs ! skip (i mod length xs) (j mod (length xs - 1)),
                  xs ! skip (i mod length xs)
                         (skip (j mod (length xs - 1)) (k mod (length xs - 2)))]"
proof -
  let ?n = "length xs"
  let ?r1 = "snd (take_at i xs)"
  let ?r2 = "snd (take_at j ?r1)"
  let ?b' = "j mod (?n - 1)"
  let ?c' = "k mod (?n - 2)"
  have ne: "xs \<noteq> []" using assms by auto
  have l1: "length ?r1 = ?n - 1" using take_at_nth(2) [OF ne] .
  have ne1: "?r1 \<noteq> []" using l1 assms by auto
  have l2: "length ?r2 = ?n - 2" using take_at_nth(2) [OF ne1, of j] l1 by simp
  have ne2: "?r2 \<noteq> []" using l2 assms by auto
  have b': "?b' < ?n - 1" using assms by simp
  have c': "?c' < ?n - 2" using assms by simp
  have sb: "skip ?b' ?c' < ?n - 1" using c' skip_less [of ?c' "?n - 1" ?b'] by simp
  have e1: "fst (take_at i xs) = xs ! (i mod ?n)" using take_at_nth(1) [OF ne] .
  have e2: "fst (take_at j ?r1) = xs ! skip (i mod ?n) ?b'"
    using take_at_nth(1) [OF ne1, of j] take_at_nth(3) [OF ne, of ?b' i] b' l1 by simp
  have "fst (take_at k ?r2) = ?r2 ! ?c'" using take_at_nth(1) [OF ne2, of k] l2 by simp
  also have "\<dots> = ?r1 ! skip ?b' ?c'"
    using take_at_nth(3) [OF ne1, of ?c' j] c' l1 by simp
  also have "\<dots> = xs ! skip (i mod ?n) (skip ?b' ?c')"
    using take_at_nth(3) [OF ne, of "skip ?b' ?c'" i] sb by simp
  finally have e3: "fst (take_at k ?r2) = xs ! skip (i mod ?n) (skip ?b' ?c')" .
  show ?thesis
    using assms e1 e2 e3 by (simp add: random_sample3_def case_prod_beta Let_def)
qed

lemma random_sample3_positions:
  assumes "3 \<le> length xs"
  shows "\<exists>a b c. a < length xs \<and> b < length xs \<and> c < length xs \<and> distinct [a, b, c]
           \<and> random_sample3 xs d = Inr [xs ! a, xs ! b, xs ! c]"
proof -
  obtain i j k where d: "d = (i, j, k)" by (cases d) auto
  let ?n = "length xs"
  let ?a = "i mod ?n"
  let ?b' = "j mod (?n - 1)"
  let ?c' = "k mod (?n - 2)"
  have "0 < ?n" using assms by linarith
  then have a: "?a < ?n" by simp
  have b': "?b' < ?n - 1" using assms by simp
  have c': "?c' < ?n - 2" using assms by simp
  have sb: "skip ?b' ?c' < ?n - 1" using c' skip_less [of ?c' "?n - 1" ?b'] by simp
  have "skip ?a ?b' < ?n" using skip_less [OF b'] .
  moreover have "skip ?a (skip ?b' ?c') < ?n" using skip_less [OF sb] .
  moreover have "distinct [?a, skip ?a ?b', skip ?a (skip ?b' ?c')]"
    using skip_neq [of ?a ?b'] skip_neq [of ?a "skip ?b' ?c'"] skip_neq [of ?b' ?c']
      skip_inj [of ?a "skip ?b' ?c'" ?b'] by auto
  ultimately show ?thesis
    using a random_sample3_eq [OF assms, of i j k] unfolding d by blast
qed

lemma skip_unskip: "q \<noteq> p \<Longrightarrow> skip p (if q < p then q else q - 1) = q"
  by (auto simp: skip_def)

lemma random_sample3_reaches:
  assumes "a < length xs" "b < length xs" "c < length xs" "distinct [a, b, c]"
  shows "\<exists>d. random_sample3 xs d = Inr [xs ! a, xs ! b, xs ! c]"
proof -
  let ?n = "length xs"
  define j where "j = (if b < a then b else b - 1)"
  define c1 where "c1 = (if c < a then c else c - 1)"
  define k where "k = (if c1 < j then c1 else c1 - 1)"
  have n3: "3 \<le> ?n"
  proof -
    have "card {a, b, c} = 3" using assms(4) by simp
    moreover have "{a, b, c} \<subseteq> {..<?n}" using assms(1-3) by simp
    ultimately have "3 \<le> card {..<?n}" by (metis card_mono finite_lessThan)
    then show ?thesis by simp
  qed
  have ba: "b \<noteq> a" and ca: "c \<noteq> a" and cb: "c \<noteq> b" using assms(4) by auto
  have sj: "skip a j = b" unfolding j_def using ba by (rule skip_unskip)
  have sc1: "skip a c1 = c" unfolding c1_def using ca by (rule skip_unskip)
  have "c1 \<noteq> j" using sj sc1 cb by auto
  then have sk: "skip j k = c1" unfolding k_def by (rule skip_unskip)
  have jl: "j < ?n - 1" using assms(1,2) ba by (auto simp: j_def)
  have c1l: "c1 < ?n - 1" using assms(1,3) ca by (auto simp: c1_def)
  have kl: "k < ?n - 2" using jl c1l \<open>c1 \<noteq> j\<close> by (auto simp: k_def)
  have "random_sample3 xs (a, j, k) = Inr [xs ! a, xs ! b, xs ! c]"
    using random_sample3_eq [OF n3, of a j k] assms(1) jl kl sj sk sc1 by simp
  then show ?thesis by blast
qed


lemma tournament_round:
  assumes "3 \<le> length sp"
  shows "\<exists>t. random_sample3 sp d = Inr t
           \<and> tournament_of sp d (fst (max_by snd (hd t) (tl t)))"
proof -
  obtain a b c where abc: "a < length sp" "b < length sp" "c < length sp" "distinct [a, b, c]"
    and run: "random_sample3 sp d = Inr [sp ! a, sp ! b, sp ! c]"
    using random_sample3_positions [OF assms, of d] by blast
  let ?w = "max_by snd (sp ! a) [sp ! b, sp ! c]"
  have "?w \<in> {sp ! a, sp ! b, sp ! c}" using max_by_mem [of snd "sp ! a" "[sp ! b, sp ! c]"] by auto
  moreover have "snd (sp ! a) \<le> snd ?w \<and> snd (sp ! b) \<le> snd ?w \<and> snd (sp ! c) \<le> snd ?w"
    using max_by_ge [of "sp ! a" "[sp ! b, sp ! c]" snd] by auto
  ultimately have "tournament_of sp d (fst ?w)"
    unfolding tournament_of_def using abc run by blast
  then show ?thesis using run by simp
qed

lemma tournament_rounds_ok:
  assumes "3 \<le> length sp"
  shows "\<exists>pool. tournament_rounds sp draws n = Inr pool \<and> length pool = n
           \<and> (\<forall>i < n. tournament_of sp (draws i) (pool ! i))"
proof (induction n)
  case 0
  show ?case by simp
next
  case (Suc n)
  then obtain pool where pool: "tournament_rounds sp draws n = Inr pool" "length pool = n"
    "\<forall>i < n. tournament_of sp (draws i) (pool ! i)" by blast
  obtain t where t: "random_sample3 sp (draws n) = Inr t"
    "tournament_of sp (draws n) (fst (max_by snd (hd t) (tl t)))"
    using tournament_round [OF assms, of "draws n"] by blast
  let ?pool' = "pool @ [fst (max_by snd (hd t) (tl t))]"
  have "tournament_rounds sp draws (Suc n) = Inr ?pool'" using pool(1) t(1) by simp
  moreover have "length ?pool' = Suc n" using pool(2) by simp
  moreover have "\<forall>i < Suc n. tournament_of sp (draws i) (?pool' ! i)"
    using pool(2,3) t(2) by (auto simp: nth_append less_Suc_eq)
  ultimately show ?case by blast
qed








subsection \<open>One generation\<close>

lemma fitness_function_ignores_fitness:
  "fitness_function sv e (c\<lparr>fitness := f\<rparr>) s = fitness_function sv e c s"
  by (simp add: fitness_function_def calculate_chromosome_diversity_def)

lemma score_after_write:
  "score sv e batch (st[r := (st ! r)\<lparr>fitness := f\<rparr>]) r' = score sv e batch st r'"
proof (cases "r' = r \<and> r < length st")
  case True
  then show ?thesis by (simp add: score_def fitness_function_ignores_fitness)
next
  case False
  then have "st[r := (st ! r)\<lparr>fitness := f\<rparr>] ! r' = st ! r'"
    by (cases "r < length st") (auto simp: list_update_beyond)
  then show ?thesis by (simp add: score_def)
qed

lemma evaluate_scores:
  "snd (evaluate sv e batch st rs acc) = acc @ map (\<lambda>r. (r, score sv e batch st r)) rs"
proof (induction rs arbitrary: st acc)
  case Nil
  show ?case by simp
next
  case (Cons r rs)
  show ?case
    using Cons.IH [of "st[r := (st ! r)\<lparr>fitness := score sv e batch st r\<rparr>]"
        "acc @ [(r, score sv e batch st r)]"]
    by (simp add: Let_def score_after_write) (simp add: score_def)
qed

lemma evaluate_length: "length (fst (evaluate sv e batch st rs acc)) = length st"
proof (induction rs arbitrary: st acc)
  case Nil
  show ?case by simp
next
  case (Cons r rs)
  show ?case
    using Cons.IH [of "st[r := (st ! r)\<lparr>fitness := score sv e batch st r\<rparr>]"
        "acc @ [(r, score sv e batch st r)]"]
    by (simp add: Let_def score_def)
qed

lemma evaluate_store:
  "r < length st \<Longrightarrow>
   fst (evaluate sv e batch st rs acc) ! r
     = (if r \<in> set rs then (st ! r)\<lparr>fitness := score sv e batch st r\<rparr> else st ! r)"
proof (induction rs arbitrary: st acc)
  case Nil
  show ?case by simp
next
  case (Cons r0 rs)
  let ?st = "st[r0 := (st ! r0)\<lparr>fitness := score sv e batch st r0\<rparr>]"
  have step: "fst (evaluate sv e batch st (r0 # rs) acc) ! r
      = fst (evaluate sv e batch ?st rs (acc @ [(r0, score sv e batch st r0)])) ! r"
    by (simp add: Let_def score_def)
  have "r < length ?st" using Cons.prems by simp
  from Cons.IH [OF this] have ih:
    "fst (evaluate sv e batch ?st rs (acc @ [(r0, score sv e batch st r0)])) ! r
       = (if r \<in> set rs then (?st ! r)\<lparr>fitness := score sv e batch st r\<rparr> else ?st ! r)"
    by (simp add: score_after_write)
  show ?case
  proof (cases "r = r0")
    case True
    then show ?thesis using step ih Cons.prems by simp
  next
    case False
    then show ?thesis using step ih by simp
  qed
qed

lemma ranking_set:
  "set (ranking sv st e batch) = (\<lambda>r. (r, score sv e batch st r)) ` set (population e)"
  by (simp add: ranking_def evaluate_scores)

lemma ranking_length: "length (ranking sv st e batch) = length (population e)"
  by (simp add: ranking_def evaluate_scores)

lemma ranking_descending:
  assumes "i \<le> j" "j < length (population e)"
  shows "snd (ranking sv st e batch ! j) \<le> snd (ranking sv st e batch ! i)"
proof -
  have "sorted (map (\<lambda>x. - snd x) (ranking sv st e batch))"
    unfolding ranking_def by (rule sorted_sort_key)
  then have "map (\<lambda>x. - snd x) (ranking sv st e batch) ! i
      \<le> map (\<lambda>x. - snd x) (ranking sv st e batch) ! j"
    using assms by (intro sorted_nth_mono) (simp_all add: ranking_length)
  then show ?thesis using assms by (simp add: ranking_length)
qed

lemma ranking_nth:
  assumes "i < length (population e)"
  shows "fst (ranking sv st e batch ! i) \<in> set (population e)
     \<and> snd (ranking sv st e batch ! i) = score sv e batch st (fst (ranking sv st e batch ! i))"
proof -
  have "ranking sv st e batch ! i \<in> set (ranking sv st e batch)"
    using assms by (simp add: ranking_length)
  then show ?thesis unfolding ranking_set by auto
qed

lemma upt_two_more: "[a, Suc a] @ [Suc (Suc a) ..< Suc (Suc a) + k] = [a ..< a + (2 + k)]"
proof -
  have "[a ..< (a + 2) + k] = [a ..< a + 2] @ [a + 2 ..< a + 2 + k]"
    by (rule upt_add_eq_append) simp
  moreover have "[a ..< a + 2] = [a, Suc a]"
    by (simp add: upt_rec)
  moreover have "a + (2 + k) = (a + 2) + k" "Suc (Suc a) = a + 2" by simp_all
  ultimately show ?thesis by metis
qed

lemma breed_extends:
  "\<exists>ext. fst (breed e pool n draws i st off) = st @ ext
      \<and> snd (breed e pool n draws i st off) = off @ [length st ..< length st + length ext]"
proof (induction e pool n draws i st off rule: breed.induct)
  case (1 e pool n draws i st off)
  show ?case
  proof (cases "int n + int (length off) < population_size e \<and> \<not> length pool < 2")
    case False
    then show ?thesis by (auto simp: breed.simps [of e pool n draws i st off])
  next
    case True
    define d where "d = draws i"
    define parent1 where "parent1 = random_choice pool (choice1 d)"
    define parent2 where "parent2 = random_choice pool (choice2 d)"
    define children where "children =
      (if crossover_gate d < crossover_rate e
       then crossover e (st ! parent1) (st ! parent2) (crossover_rnd d)
       else (st ! parent1, st ! parent2))"
    have unfold: "breed e pool n draws i st off
        = breed e pool n draws (Suc i) (st @ [fst children, snd children])
            (off @ [length st, Suc (length st)])"
      using True
      by (simp add: breed.simps [of e pool n draws i st off] Let_def d_def parent1_def
          parent2_def children_def)
    from "1.IH" [OF _ _ d_def parent1_def parent2_def children_def] True
    obtain ext where ext:
      "fst (breed e pool n draws (Suc i) (st @ [fst children, snd children])
              (off @ [length st, Suc (length st)]))
         = (st @ [fst children, snd children]) @ ext"
      "snd (breed e pool n draws (Suc i) (st @ [fst children, snd children])
              (off @ [length st, Suc (length st)]))
         = (off @ [length st, Suc (length st)])
             @ [length (st @ [fst children, snd children])
                  ..< length (st @ [fst children, snd children]) + length ext]"
      by auto
    have "[length st, Suc (length st)] @ [Suc (Suc (length st)) ..< Suc (Suc (length st)) + length ext]
        = [length st ..< length st + (2 + length ext)]"
      by (rule upt_two_more)
    then have "snd (breed e pool n draws i st off)
        = off @ [length st ..< length st + length ([fst children, snd children] @ ext)]"
      unfolding unfold using ext(2) by simp
    moreover have "fst (breed e pool n draws i st off) = st @ ([fst children, snd children] @ ext)"
      unfolding unfold using ext(1) by simp
    ultimately show ?thesis by blast
  qed
qed

lemma mutation_pass_extends: "\<exists>ext. mutation_pass e draws off i st = st @ ext"
proof (induction off arbitrary: i st)
  case Nil
  show ?case by simp
next
  case (Cons child rest)
  show ?case
  proof (cases "fst (draws i) < mutation_rate e")
    case True
    from Cons.IH [of "Suc i" "st @ [mutate (st ! child) (snd (draws i))]"]
    obtain ext where "mutation_pass e draws rest (Suc i)
        (st @ [mutate (st ! child) (snd (draws i))])
      = (st @ [mutate (st ! child) (snd (draws i))]) @ ext" by blast
    then show ?thesis using True by simp
  next
    case False
    then show ?thesis using Cons.IH [of "Suc i" st] by simp
  qed
qed

lemma evolve_generation_unfold:
  "evolve_generation sv st e batch rnd =
     (if ranking sv st e batch = [] then Inl IndexError
      else case tournament_selection (ranking sv st e batch) (population_size e div 2)
                  (tournament_rnd rnd) of
             Inl err \<Rightarrow> Inl err
           | Inr pool \<Rightarrow>
               Inr (mutation_pass e (mutation_rnd rnd) (snd (bred sv st e batch rnd pool)) 0
                      (fst (bred sv st e batch rnd pool)),
                    e\<lparr>population := installed sv st e batch rnd pool,
                      generation := Suc (generation e),
                      fitness_history := fitness_history e @ [new_record sv st e batch],
                      best_chromosome_history :=
                        best_chromosome_history e @ [fst (hd (ranking sv st e batch))]\<rparr>,
                    fst (hd (ranking sv st e batch))))"
  by (simp add: evolve_generation_def Let_def ranking_def elite_refs_def bred_def installed_def
      new_record_def split: list.split sum.split)


lemma tournament_rounds_length:
  "tournament_rounds sp draws n = Inr pool \<Longrightarrow> length pool = n"
  by (induction n arbitrary: pool) (auto split: sum.splits)

lemma tournament_selection_returns:
  assumes "3 \<le> length sp \<or> k \<le> 0"
  shows "\<exists>pool. tournament_selection sp k draws = Inr pool"
proof (cases "3 \<le> length sp")
  case True
  then show ?thesis
    using tournament_rounds_ok [of sp draws "nat k"] by (auto simp: tournament_selection_def)
next
  case False
  with assms have "nat k = 0" by simp
  then show ?thesis by (simp add: tournament_selection_def)
qed

lemma evolve_generation_returns:
  assumes "population e \<noteq> []"
    and "3 \<le> length (population e) \<or> population_size e div 2 \<le> 0"
  shows "\<exists>st' e' best. evolve_generation sv st e batch rnd = Inr (st', e', best)"
proof -
  have "ranking sv st e batch \<noteq> []"
    using assms(1) ranking_length [of sv st e batch] by auto
  moreover obtain pool where
    "tournament_selection (ranking sv st e batch) (population_size e div 2) (tournament_rnd rnd)
       = Inr pool"
    using tournament_selection_returns [of "ranking sv st e batch" "population_size e div 2"]
      assms(2) ranking_length [of sv st e batch] by auto
  ultimately show ?thesis by (simp add: evolve_generation_unfold)
qed

lemma slice_to_subset: "set (slice_to k xs) \<subseteq> set xs"
  by (auto simp: slice_to_def dest: in_set_takeD)

lemma slice_to_nth:
  "0 \<le> k \<Longrightarrow> i < min (nat k) (length xs) \<Longrightarrow> slice_to k xs ! i = xs ! i"
  by (simp add: slice_to_def)

lemma slice_to_length: "0 \<le> k \<Longrightarrow> length (slice_to k xs) = min (nat k) (length xs)"
  by (simp add: slice_to_def min.commute)

lemma elite_refs_subset: "set (elite_refs sv st e batch) \<subseteq> set (population e)"
proof -
  have "set (elite_refs sv st e batch) \<subseteq> fst ` set (ranking sv st e batch)"
    unfolding elite_refs_def using slice_to_subset [of "elite_size e" "ranking sv st e batch"]
    by auto
  also have "\<dots> = set (population e)" by (force simp: ranking_set)
  finally show ?thesis .
qed

lemma bred_extends:
  "\<exists>ext. fst (bred sv st e batch rnd pool)
            = fst (evaluate sv e batch st (population e) []) @ ext
      \<and> snd (bred sv st e batch rnd pool) = [length st ..< length st + length ext]"
  using breed_extends [of e pool "length (elite_refs sv st e batch)" "breed_rnd rnd" 0
      "fst (evaluate sv e batch st (population e) [])" "[]"]
  by (simp add: bred_def evaluate_length)

lemma installed_refs:
  assumes "refs_ok st e" and "r \<in> set (installed sv st e batch rnd pool)"
  shows "r < length (fst (bred sv st e batch rnd pool))"
proof -
  obtain ext where ext:
    "fst (bred sv st e batch rnd pool) = fst (evaluate sv e batch st (population e) []) @ ext"
    "snd (bred sv st e batch rnd pool) = [length st ..< length st + length ext]"
    using bred_extends by blast
  have len: "length (fst (bred sv st e batch rnd pool)) = length st + length ext"
    using ext(1) by (simp add: evaluate_length)
  from assms(2) consider "r \<in> set (elite_refs sv st e batch)"
    | "r \<in> set (snd (bred sv st e batch rnd pool))"
    unfolding installed_def using slice_to_subset by fastforce
  then show ?thesis
  proof cases
    case 1
    then have "r \<in> set (population e)" using elite_refs_subset by blast
    then have "r < length st" using assms(1) by (simp add: refs_ok_def list_all_iff)
    then show ?thesis using len by simp
  next
    case 2
    then show ?thesis using ext(2) len by simp
  qed
qed

lemma mutation_pass_keeps:
  "r < length st \<Longrightarrow> mutation_pass e draws off i st ! r = st ! r"
  using mutation_pass_extends [of e draws off i st] by (auto simp: nth_append)

lemma mutation_pass_length: "length st \<le> length (mutation_pass e draws off i st)"
  using mutation_pass_extends [of e draws off i st] by auto

lemma bred_keeps:
  "r < length st \<Longrightarrow>
   fst (bred sv st e batch rnd pool) ! r = fst (evaluate sv e batch st (population e) []) ! r"
  using bred_extends [of sv st e batch rnd pool] by (auto simp: nth_append evaluate_length)

lemma bred_ignores_mutation_rnd:
  "bred sv st e batch (rnd\<lparr>mutation_rnd := m\<rparr>) pool = bred sv st e batch rnd pool"
  by (simp add: bred_def)

lemma installed_ignores_mutation_rnd:
  "installed sv st e batch (rnd\<lparr>mutation_rnd := m\<rparr>) pool = installed sv st e batch rnd pool"
  by (simp add: installed_def bred_ignores_mutation_rnd)

lemma evolve_generation_history:
  assumes "evolve_generation sv st e batch rnd = Inr (st', e', best)"
  shows "fitness_history e' = fitness_history e @ [new_record sv st e batch]"
    and "best_chromosome_history e' = best_chromosome_history e @ [best]"
    and "best = best_chromosome (new_record sv st e batch)"
    and "generation e' = Suc (generation e)"
    and "population_size e' = population_size e \<and> elite_size e' = elite_size e
         \<and> mutation_rate e' = mutation_rate e \<and> crossover_rate e' = crossover_rate e
         \<and> fitness_weights e' = fitness_weights e"
  using assms
  by (auto simp: evolve_generation_unfold new_record_def split: if_splits sum.splits)

lemma evolve_generation_store:
  assumes refs: "refs_ok st e"
    and run: "evolve_generation sv st e batch rnd = Inr (st', e', best)"
    and r: "r < length st"
  shows "st' ! r = (if r \<in> set (population e)
                    then (st ! r)\<lparr>fitness := score sv e batch st r\<rparr> else st ! r)"
proof -
  from run obtain pool where
    st': "st' = mutation_pass e (mutation_rnd rnd) (snd (bred sv st e batch rnd pool)) 0
                  (fst (bred sv st e batch rnd pool))"
    by (auto simp: evolve_generation_unfold split: if_splits sum.splits)
  obtain ext where ext:
    "fst (bred sv st e batch rnd pool) = fst (evaluate sv e batch st (population e) []) @ ext"
    using bred_extends by blast
  have "r < length (fst (bred sv st e batch rnd pool))"
    using r ext by (simp add: evaluate_length)
  then have "st' ! r = fst (bred sv st e batch rnd pool) ! r"
    unfolding st' by (rule mutation_pass_keeps)
  also have "\<dots> = fst (evaluate sv e batch st (population e) []) ! r"
    using r by (rule bred_keeps)
  also have "\<dots> = (if r \<in> set (population e)
                    then (st ! r)\<lparr>fitness := score sv e batch st r\<rparr> else st ! r)"
    using r by (rule evaluate_store)
  finally show ?thesis .
qed

lemma evolve_generation_refs_ok:
  assumes refs: "refs_ok st e"
    and run: "evolve_generation sv st e batch rnd = Inr (st', e', best)"
  shows "refs_ok st' e'" and "length st \<le> length st'"
proof -
  from run obtain pool where
    st': "st' = mutation_pass e (mutation_rnd rnd) (snd (bred sv st e batch rnd pool)) 0
                  (fst (bred sv st e batch rnd pool))"
    and e': "population e' = installed sv st e batch rnd pool"
    by (auto simp: evolve_generation_unfold split: if_splits sum.splits)
  have le: "length (fst (bred sv st e batch rnd pool)) \<le> length st'"
    unfolding st' by (rule mutation_pass_length)
  have "r < length st'" if "r \<in> set (population e')" for r
    using installed_refs [OF refs, of r sv batch rnd pool] that e' le by simp
  then show "refs_ok st' e'" by (simp add: refs_ok_def list_all_iff)
  obtain ext where
    "fst (bred sv st e batch rnd pool) = fst (evaluate sv e batch st (population e) []) @ ext"
    using bred_extends by blast
  then have "length st \<le> length (fst (bred sv st e batch rnd pool))"
    by (simp add: evaluate_length)
  with le show "length st \<le> length st'" by simp
qed

lemma init_refs_ok: "refs_ok (fst (init cfg rnd)) (snd (init cfg rnd))"
  by (simp add: init_def Let_def refs_ok_def list_all_iff)

lemma elite_position:
  assumes elite: "0 \<le> elite_size e"
    and run: "evolve_generation sv st e batch rnd = Inr (st', e', best)"
    and i: "i < min (nat (elite_size e)) (length (population e))"
  shows "population e' ! i = fst (ranking sv st e batch ! i)"
proof -
  let ?sp = "ranking sv st e batch"
  from run obtain pool where e': "population e' = installed sv st e batch rnd pool"
    by (auto simp: evolve_generation_unfold split: if_splits sum.splits)
  have len: "length (elite_refs sv st e batch) = min (nat (elite_size e)) (length (population e))"
    using elite by (simp add: elite_refs_def slice_to_length ranking_length)
  have "population e' ! i = elite_refs sv st e batch ! i"
    using i len by (simp add: e' installed_def nth_append)
  also have "\<dots> = fst (slice_to (elite_size e) ?sp ! i)"
    using i elite by (simp add: elite_refs_def slice_to_length ranking_length)
  also have "\<dots> = fst (?sp ! i)"
    using i elite by (simp add: slice_to_nth ranking_length)
  finally show ?thesis .
qed

lemma evolve_run_history:
  "evolve_run sv st e calls = Inr (st', e') \<Longrightarrow>
   take (length (fitness_history e)) (fitness_history e') = fitness_history e
   \<and> length (fitness_history e') = length (fitness_history e) + length calls"
proof (induction calls arbitrary: st e)
  case Nil
  then show ?case by simp
next
  case (Cons call calls)
  from Cons.prems obtain st1 e1 best where
    one: "evolve_generation sv st e (fst call) (snd call) = Inr (st1, e1, best)"
    and rest: "evolve_run sv st1 e1 calls = Inr (st', e')"
    by (auto split: sum.splits)
  have h1: "fitness_history e1 = fitness_history e @ [new_record sv st e (fst call)]"
    using evolve_generation_history(1) [OF one] .
  from Cons.IH [OF rest] have ih:
    "take (length (fitness_history e1)) (fitness_history e') = fitness_history e1"
    "length (fitness_history e') = length (fitness_history e1) + length calls"
    by simp_all
  have "take (length (fitness_history e)) (fitness_history e')
      = take (length (fitness_history e)) (take (length (fitness_history e1)) (fitness_history e'))"
    using h1 by (simp add: min_def)
  also have "\<dots> = take (length (fitness_history e)) (fitness_history e1)"
    by (simp only: ih(1))
  also have "\<dots> = fitness_history e" by (simp add: h1)
  finally show ?case using ih(2) h1 by simp
qed

lemma breed_fills:
  "2 \<le> length pool \<Longrightarrow>
   population_size e \<le> int n + int (length (snd (breed e pool n draws i st off)))"
proof (induction e pool n draws i st off rule: breed.induct)
  case (1 e pool n draws i st off)
  show ?case
  proof (cases "int n + int (length off) < population_size e")
    case False
    then show ?thesis by (simp add: breed.simps [of e pool n draws i st off])
  next
    case True
    define d where "d = draws i"
    define parent1 where "parent1 = random_choice pool (choice1 d)"
    define parent2 where "parent2 = random_choice pool (choice2 d)"
    define children where "children =
      (if crossover_gate d < crossover_rate e
       then crossover e (st ! parent1) (st ! parent2) (crossover_rnd d)
       else (st ! parent1, st ! parent2))"
    have unfold: "breed e pool n draws i st off
        = breed e pool n draws (Suc i) (st @ [fst children, snd children])
            (off @ [length st, Suc (length st)])"
      using True "1.prems"
      by (simp add: breed.simps [of e pool n draws i st off] Let_def d_def parent1_def
          parent2_def children_def)
    show ?thesis
      unfolding unfold
      using "1.IH" [OF True _ d_def parent1_def parent2_def children_def] "1.prems" by simp
  qed
qed

lemma installed_length:
  assumes "2 \<le> length pool" "0 \<le> elite_size e" "elite_size e \<le> population_size e"
  shows "int (length (installed sv st e batch rnd pool)) = population_size e"
proof -
  let ?el = "elite_refs sv st e batch"
  let ?off = "snd (bred sv st e batch rnd pool)"
  have el: "length ?el = min (nat (elite_size e)) (length (population e))"
    using assms(2) by (simp add: elite_refs_def slice_to_length ranking_length)
  then have k: "0 \<le> population_size e - int (length ?el)" using assms(2,3) by simp
  have "population_size e \<le> int (length ?el) + int (length ?off)"
    unfolding bred_def using breed_fills [OF assms(1)] .
  then have "length (slice_to (population_size e - int (length ?el)) ?off)
      = nat (population_size e - int (length ?el))"
    using k by (simp add: slice_to_length)
  then show ?thesis using k by (simp add: installed_def)
qed

lemma evolve_generation_population_size:
  assumes run: "evolve_generation sv st e batch rnd = Inr (st', e', best)"
    and "4 \<le> population_size e" "0 \<le> elite_size e" "elite_size e \<le> population_size e"
  shows "int (length (population e')) = population_size e"
proof -
  from run obtain pool where
    pool: "tournament_selection (ranking sv st e batch) (population_size e div 2)
             (tournament_rnd rnd) = Inr pool"
    and e': "population e' = installed sv st e batch rnd pool"
    by (auto simp: evolve_generation_unfold split: if_splits sum.splits)
  have "length pool = nat (population_size e div 2)"
    using pool tournament_rounds_length by (simp add: tournament_selection_def)
  then have "2 \<le> length pool" using assms(2) by simp
  from installed_length [OF this assms(3,4)] e' show ?thesis by simp
qed

lemma demo_engine_fields:
  "population demo_engine = [0, 1, 2, 3]" "population_size demo_engine = 4"
  "elite_size demo_engine = 1" "fitness_history demo_engine = []"
  "fitness_weights demo_engine = cfg_fitness_weights GA_CONFIG"
  "mutation_rate demo_engine = 0.2"
  by (simp_all add: demo_engine_def demo_config_def init_def Let_def GA_CONFIG_def
      initialize_population_def upt_conv_Cons)

lemma demo_store_fields:
  "length demo_store = 4" "chr_id (demo_store ! 0) = ''gen0_chr0''"
  by (simp_all add: demo_store_def demo_config_def init_def Let_def GA_CONFIG_def
      initialize_population_def str_nat_0 nth_append upt_conv_Cons)

lemma demo_refs_ok: "refs_ok demo_store demo_engine"
  by (simp add: refs_ok_def demo_engine_fields demo_store_fields)

lemma demo_first_run_returns:
  "\<exists>st1 e1 best. evolve_generation str_values0 demo_store demo_engine demo_batch demo_draws
      = Inr (st1, e1, best)"
  by (rule evolve_generation_returns) (simp_all add: demo_engine_fields)


lemma str_nat_1: "str_nat (Suc 0) = ''1''"
  by code_simp

lemma str_nat_2: "str_nat 2 = ''2''"
  by code_simp

lemma str_nat_3: "str_nat 3 = ''3''"
  by code_simp

lemmas str_nat_digits = str_nat_1 str_nat_2 str_nat_3

lemma demo_store_id: "i < 4 \<Longrightarrow> chr_id (demo_store ! i) = ''gen0_chr'' @ str_nat i"
  by (simp add: demo_store_def demo_config_def init_def Let_def GA_CONFIG_def
      initialize_population_def)

lemma demo_store_ids:
  "chr_id (demo_store ! Suc 0) = ''gen0_chr1''" "chr_id (demo_store ! 2) = ''gen0_chr2''"
  "chr_id (demo_store ! 3) = ''gen0_chr3''"
  by (simp_all add: demo_store_id str_nat_digits)

lemma fitness_function_lateral_movement:
  assumes "fitness_weights e = cfg_fitness_weights GA_CONFIG"
  shows "fitness_function sv e c stats_lateral_movement
           = 385 + 200 * calculate_chromosome_diversity sv c"
  using assms
  by (simp add: fitness_function_def stats_lateral_movement_def dict_get_def GA_CONFIG_def Let_def)

lemma demo_scores:
  "0 < score str_values0 demo_engine demo_batch demo_store 0"
  "score str_values0 demo_engine demo_batch demo_store (Suc 0) = 0"
  "score str_values0 demo_engine demo_batch demo_store 2 = 0"
  "score str_values0 demo_engine demo_batch demo_store 3 = 0"
proof -
  have "0 \<le> calculate_chromosome_diversity str_values0 (demo_store ! 0)"
    using calculate_chromosome_diversity_range by simp
  then show "0 < score str_values0 demo_engine demo_batch demo_store 0"
    by (simp add: score_def demo_store_fields demo_batch_def dict_get_def
        fitness_function_lateral_movement [OF demo_engine_fields(5)])
qed (simp_all add: score_def demo_store_ids demo_batch_def dict_get_def fitness_function_empty)

lemma demo_ranking:
  "ranking str_values0 demo_store demo_engine demo_batch
     = [(0, score str_values0 demo_engine demo_batch demo_store 0), (1, 0), (2, 0), (3, 0)]"
proof -
  have "map (\<lambda>r. (r, score str_values0 demo_engine demo_batch demo_store r)) (population demo_engine)
      = [(0, score str_values0 demo_engine demo_batch demo_store 0), (1, 0), (2, 0), (3, 0)]"
    by (simp add: demo_engine_fields demo_scores(2-4))
  then show ?thesis
    unfolding ranking_def evaluate_scores using demo_scores(1) by simp
qed

lemma score_empty_batch: "score sv e [] st r = 0"
  by (simp add: score_def dict_get_def fitness_function_empty)

lemma demo_first_run:
  assumes "evolve_generation str_values0 demo_store demo_engine demo_batch demo_draws
             = Inr (st1, e1, best)"
  shows "best = 0" and "population e1 ! 0 = 0" and "length (population e1) = 4"
    and "refs_ok st1 e1" and "0 < length st1"
    and "chr_id (st1 ! 0) = ''gen0_chr0''"
    and "fitness (st1 ! 0) = score str_values0 demo_engine demo_batch demo_store 0"
    and "fitness_history e1 = [new_record str_values0 demo_store demo_engine demo_batch]"
    and "best_chromosome (new_record str_values0 demo_store demo_engine demo_batch) = 0"
    and "population_size e1 = 4"
proof -
  note run = assms
  show b: "best = 0"
    using evolve_generation_history(3) [OF run] by (simp add: new_record_def demo_ranking)
  show "best_chromosome (new_record str_values0 demo_store demo_engine demo_batch) = 0"
    by (simp add: new_record_def demo_ranking)
  show "fitness_history e1 = [new_record str_values0 demo_store demo_engine demo_batch]"
    using evolve_generation_history(1) [OF run] by (simp add: demo_engine_fields)
  show ps: "population_size e1 = 4"
    using evolve_generation_history(5) [OF run] by (simp add: demo_engine_fields)
  have "int (length (population e1)) = population_size demo_engine"
    using run by (rule evolve_generation_population_size) (simp_all add: demo_engine_fields)
  then show len: "length (population e1) = 4" by (simp add: demo_engine_fields)
  show "refs_ok st1 e1" using demo_refs_ok run by (rule evolve_generation_refs_ok(1))
  have "length demo_store \<le> length st1" using demo_refs_ok run by (rule evolve_generation_refs_ok(2))
  then show "0 < length st1" unfolding demo_store_fields by linarith
  have "0 < min (nat (elite_size demo_engine)) (length (population demo_engine))"
    by (simp add: demo_engine_fields)
  from elite_position [OF _ run this]
  show "population e1 ! 0 = 0" by (simp add: demo_engine_fields demo_ranking)
  have "st1 ! 0 = (demo_store ! 0)\<lparr>fitness := score str_values0 demo_engine demo_batch demo_store 0\<rparr>"
    using evolve_generation_store [OF demo_refs_ok run, of 0]
    by (simp add: demo_store_fields demo_engine_fields)
  then show "chr_id (st1 ! 0) = ''gen0_chr0''"
    and "fitness (st1 ! 0) = score str_values0 demo_engine demo_batch demo_store 0"
    by (simp_all add: demo_store_fields)
qed

lemma demo_second_run_returns:
  assumes "evolve_generation str_values0 demo_store demo_engine demo_batch demo_draws
             = Inr (st1, e1, best)"
  shows "\<exists>st2 e2 best2. evolve_generation str_values0 st1 e1 batch rnd = Inr (st2, e2, best2)"
proof (rule evolve_generation_returns)
  show "population e1 \<noteq> []" using demo_first_run(3) [OF assms] by auto
  show "3 \<le> length (population e1) \<or> population_size e1 div 2 \<le> 0"
    using demo_first_run(3) [OF assms] by simp
qed

text \<open>
  C1.  The population that \<open>evolve_generation\<close> installs does not depend on the mutation
  draws: whatever they are, the call returns the same engine, and the installed chromosomes
  have the same contents.  In particular a run in which every child is selected for
  mutation installs what a run in which none is selected installs, the children as they
  were bred.  The mutated copy is a new object that nothing refers to: a pass over the one
  child \<open>genes0\<close> leaves it as it is and allocates a copy with \<open>honeypot_count\<close> 7.
\<close>

theorem evolve_generation_discards_mutation:
  assumes refs: "refs_ok st e"
    and run: "evolve_generation sv st e batch rnd = Inr (st1, e1, best)"
  shows "\<exists>st2. evolve_generation sv st e batch (rnd\<lparr>mutation_rnd := m\<rparr>) = Inr (st2, e1, best)
           \<and> map ((!) st2) (population e1) = map ((!) st1) (population e1)"
proof -
  from run obtain pool where
    pool: "tournament_selection (ranking sv st e batch) (population_size e div 2)
             (tournament_rnd rnd) = Inr pool"
    and ne: "ranking sv st e batch \<noteq> []"
    by (auto simp: evolve_generation_unfold split: if_splits sum.splits)
  let ?stb = "fst (bred sv st e batch rnd pool)"
  let ?off = "snd (bred sv st e batch rnd pool)"
  have st1: "st1 = mutation_pass e (mutation_rnd rnd) ?off 0 ?stb"
    and e1: "population e1 = installed sv st e batch rnd pool"
    using run pool ne by (auto simp: evolve_generation_unfold)
  let ?st2 = "mutation_pass e m ?off 0 ?stb"
  have run2: "evolve_generation sv st e batch (rnd\<lparr>mutation_rnd := m\<rparr>) = Inr (?st2, e1, best)"
    using run pool ne
    by (auto simp: evolve_generation_unfold bred_ignores_mutation_rnd
        installed_ignores_mutation_rnd)
  have "?st2 ! r = st1 ! r" if "r \<in> set (population e1)" for r
  proof -
    have "r < length ?stb" using that e1 installed_refs [OF refs] by simp
    then show ?thesis unfolding st1 by (simp add: mutation_pass_keeps)
  qed
  then have "map ((!) ?st2) (population e1) = map ((!) st1) (population e1)" by simp
  with run2 show ?thesis by blast
qed

theorem evolve_generation_discards_mutation_witness:
  "refs_ok demo_store demo_engine
   \<and> (\<exists>st1 e1 best st2.
         evolve_generation str_values0 demo_store demo_engine demo_batch demo_draws
           = Inr (st1, e1, best)
       \<and> evolve_generation str_values0 demo_store demo_engine demo_batch
             (demo_draws\<lparr>mutation_rnd := (\<lambda>i. (1, no_mutation))\<rparr>)
           = Inr (st2, e1, best)
       \<and> map ((!) st2) (population e1) = map ((!) st1) (population e1)
       \<and> length (population e1) = 4)
   \<and> mutation_pass demo_engine (mutation_rnd demo_draws) [0] 0 [genes0]
       = [genes0, genes0\<lparr>honeypot_count := 7\<rparr>]"
proof -
  have pass: "mutation_pass demo_engine (mutation_rnd demo_draws) [0] 0 [genes0]
      = [genes0, genes0\<lparr>honeypot_count := 7\<rparr>]"
    by (simp add: demo_draws_def demo_engine_fields mutate_raise_honeypot_count)
  obtain st1 e1 best where
    run: "evolve_generation str_values0 demo_store demo_engine demo_batch demo_draws
            = Inr (st1, e1, best)"
    using demo_first_run_returns by blast
  from evolve_generation_discards_mutation [OF demo_refs_ok run, of "\<lambda>i. (1, no_mutation)"]
  obtain st2 where
    "evolve_generation str_values0 demo_store demo_engine demo_batch
        (demo_draws\<lparr>mutation_rnd := (\<lambda>i. (1, no_mutation))\<rparr>) = Inr (st2, e1, best)"
    "map ((!) st2) (population e1) = map ((!) st1) (population e1)"
    by blast
  with run demo_first_run(3) [OF run] demo_refs_ok pass show ?thesis by blast
qed

text \<open>
  C8.  When \<open>evolve_generation\<close> returns, each of the first \<open>elite_size\<close> chromosomes of
  the ranking of the old population (all of them when there are fewer) is at the same
  position of the new population, with the id it had and the fitness just computed for it;
  no chromosome ranked after it has a higher fitness.  The population refers to allocated
  objects, which holds after construction (lemma \<open>init_refs_ok\<close>) and after every
  generation (lemma \<open>evolve_generation_refs_ok\<close>), and \<open>elite_size\<close> is not negative.
\<close>

theorem elites_carried_over:
  assumes refs: "refs_ok st e"
    and elite: "0 \<le> elite_size e"
    and run: "evolve_generation sv st e batch rnd = Inr (st', e', best)"
    and i: "i < min (nat (elite_size e)) (length (population e))"
  shows "population e' ! i = fst (ranking sv st e batch ! i)
     \<and> population e' ! i \<in> set (population e)
     \<and> chr_id (st' ! (population e' ! i)) = chr_id (st ! (population e' ! i))
     \<and> fitness (st' ! (population e' ! i)) = snd (ranking sv st e batch ! i)
     \<and> snd (ranking sv st e batch ! i) = score sv e batch st (population e' ! i)
     \<and> (\<forall>j. i \<le> j \<and> j < length (population e)
            \<longrightarrow> snd (ranking sv st e batch ! j) \<le> snd (ranking sv st e batch ! i))"
proof -
  let ?sp = "ranking sv st e batch"
  have il: "i < length (population e)" using i by simp
  have p: "population e' ! i = fst (?sp ! i)" using elite run i by (rule elite_position)
  have mem: "fst (?sp ! i) \<in> set (population e)"
    and sc: "snd (?sp ! i) = score sv e batch st (fst (?sp ! i))"
    using ranking_nth [OF il, of sv st batch] by simp_all
  have "fst (?sp ! i) < length st"
    using mem refs by (simp add: refs_ok_def list_all_iff)
  from evolve_generation_store [OF refs run this] mem
  have "st' ! fst (?sp ! i) = (st ! fst (?sp ! i))\<lparr>fitness := score sv e batch st (fst (?sp ! i))\<rparr>"
    by simp
  then have "chr_id (st' ! fst (?sp ! i)) = chr_id (st ! fst (?sp ! i))"
    and "fitness (st' ! fst (?sp ! i)) = snd (?sp ! i)"
    using sc by simp_all
  moreover have "\<forall>j. i \<le> j \<and> j < length (population e) \<longrightarrow> snd (?sp ! j) \<le> snd (?sp ! i)"
    using ranking_descending by blast
  ultimately show ?thesis using p mem sc by simp
qed

theorem elites_carried_over_witness:
  "refs_ok demo_store demo_engine \<and> 0 \<le> elite_size demo_engine
   \<and> 0 < min (nat (elite_size demo_engine)) (length (population demo_engine))
   \<and> (\<exists>st1 e1 best.
         evolve_generation str_values0 demo_store demo_engine demo_batch demo_draws
           = Inr (st1, e1, best)
       \<and> population e1 ! 0 = 0 \<and> chr_id (st1 ! 0) = ''gen0_chr0''
       \<and> fitness (st1 ! 0) = score str_values0 demo_engine demo_batch demo_store 0
       \<and> chr_id (demo_store ! 0) = ''gen0_chr0'')"
proof -
  obtain st1 e1 best where
    run: "evolve_generation str_values0 demo_store demo_engine demo_batch demo_draws
            = Inr (st1, e1, best)"
    using demo_first_run_returns by blast
  have el: "0 \<le> elite_size demo_engine"
    and i: "0 < min (nat (elite_size demo_engine)) (length (population demo_engine))"
    by (simp_all add: demo_engine_fields)
  from elites_carried_over [OF demo_refs_ok el run i]
  have p: "population e1 ! 0 = fst (ranking str_values0 demo_store demo_engine demo_batch ! 0)"
    and c: "chr_id (st1 ! (population e1 ! 0)) = chr_id (demo_store ! (population e1 ! 0))"
    and f: "fitness (st1 ! (population e1 ! 0))
              = snd (ranking str_values0 demo_store demo_engine demo_batch ! 0)"
    by blast+
  have p0: "population e1 ! 0 = 0" using p by (simp only: demo_ranking nth_Cons_0 fst_conv)
  have "chr_id (st1 ! 0) = ''gen0_chr0''" using c p0 by (simp add: demo_store_fields)
  moreover have "fitness (st1 ! 0) = score str_values0 demo_engine demo_batch demo_store 0"
    using f p0 by (simp only: demo_ranking nth_Cons_0 snd_conv)
  ultimately show ?thesis using run demo_refs_ok el i p0 demo_store_fields(2) by blast
qed

text \<open>
  C7 (as amended).  Later calls of \<open>evolve_generation\<close> leave every record of the history
  as it is, fields and reference to the best chromosome alike, and append one record per
  call.
\<close>

theorem history_records_kept:
  assumes "evolve_run sv st e calls = Inr (st', e')"
    and "n < length (fitness_history e)"
  shows "fitness_history e' ! n = fitness_history e ! n
     \<and> length (fitness_history e') = length (fitness_history e) + length calls"
proof -
  from evolve_run_history [OF assms(1)] have
    t: "take (length (fitness_history e)) (fitness_history e') = fitness_history e"
    and l: "length (fitness_history e') = length (fitness_history e) + length calls"
    by simp_all
  have "fitness_history e ! n = take (length (fitness_history e)) (fitness_history e') ! n"
    using t by simp
  also have "\<dots> = fitness_history e' ! n" using assms(2) by simp
  finally show ?thesis using l by simp
qed

theorem history_records_kept_witness:
  "\<exists>st1 e1 best st2 e2.
      evolve_generation str_values0 demo_store demo_engine demo_batch demo_draws
        = Inr (st1, e1, best)
    \<and> evolve_run str_values0 st1 e1 [([], demo_draws)] = Inr (st2, e2)
    \<and> 0 < length (fitness_history e1)
    \<and> fitness_history e2 ! 0 = fitness_history e1 ! 0
    \<and> length (fitness_history e2) = 2"
proof -
  obtain st1 e1 best where
    run: "evolve_generation str_values0 demo_store demo_engine demo_batch demo_draws
            = Inr (st1, e1, best)"
    using demo_first_run_returns by blast
  obtain st2 e2 best2 where
    run2: "evolve_generation str_values0 st1 e1 [] demo_draws = Inr (st2, e2, best2)"
    using demo_second_run_returns [OF run] by blast
  then have runs: "evolve_run str_values0 st1 e1 [([], demo_draws)] = Inr (st2, e2)" by simp
  have n: "0 < length (fitness_history e1)" using demo_first_run(8) [OF run] by simp
  from history_records_kept [OF runs n] demo_first_run(8) [OF run]
  have "fitness_history e2 ! 0 = fitness_history e1 ! 0 \<and> length (fitness_history e2) = 2"
    by simp
  with run runs n show ?thesis by blast
qed

text \<open>
  C7 (as stated) fails: the record refers to the live chromosome, not to a copy.  After a
  second call with no telemetry the record of the first generation is unchanged, but the
  chromosome it refers to, an elite of the new population, has had its fitness overwritten
  with 0.
\<close>

theorem history_snapshot_overwritten_counterexample:
  "\<exists>st1 e1 best1 st2 e2 best2.
      evolve_generation str_values0 demo_store demo_engine demo_batch demo_draws
        = Inr (st1, e1, best1)
    \<and> evolve_generation str_values0 st1 e1 [] demo_draws = Inr (st2, e2, best2)
    \<and> fitness_history e2 ! 0 = fitness_history e1 ! 0
    \<and> best_chromosome (fitness_history e1 ! 0) = best1
    \<and> 0 < fitness (st1 ! best1)
    \<and> fitness (st2 ! best1) = 0"
proof -
  obtain st1 e1 best1 where
    run: "evolve_generation str_values0 demo_store demo_engine demo_batch demo_draws
            = Inr (st1, e1, best1)"
    using demo_first_run_returns by blast
  note f = demo_first_run [OF run]
  obtain st2 e2 best2 where
    run2: "evolve_generation str_values0 st1 e1 [] demo_draws = Inr (st2, e2, best2)"
    using demo_second_run_returns [OF run] by blast
  have "fitness_history e2 = fitness_history e1 @ [new_record str_values0 st1 e1 []]"
    using run2 by (rule evolve_generation_history(1))
  then have h: "fitness_history e2 ! 0 = fitness_history e1 ! 0" using f(8) by simp
  have b: "best_chromosome (fitness_history e1 ! 0) = best1" using f(1,8,9) by simp
  have pos: "0 < fitness (st1 ! best1)" using f(1,7) demo_scores(1) by simp
  have "0 \<in> set (population e1)" using f(2,3) by (metis nth_mem zero_less_numeral)
  then have "st2 ! 0 = (st1 ! 0)\<lparr>fitness := score str_values0 e1 [] st1 0\<rparr>"
    using evolve_generation_store [OF f(4) run2 f(5)] by simp
  then have "fitness (st2 ! best1) = 0" using f(1) by (simp add: score_empty_batch)
  with run run2 h b pos show ?thesis by blast
qed

end
